theory Spec2Isabelle
  imports Complex_Main "HOL-Library.Sublist"
begin

section \<open>Local records shared by the admin views and the sync routines\<close>

text \<open>
  A local \<open>Customer\<close> row: its primary key and the external (Stripe) identifier.
  Related rows (cards, subscriptions, invoices, orders) refer to a customer by primary key.
\<close>

record customer =
  c_pk :: nat
  c_stripe_id :: string

record card =
  card_pk :: nat
  card_customer :: nat
  card_fingerprint :: string

record subscription =
  sub_pk :: nat
  sub_customer :: nat
  sub_status :: string

record invoice =
  inv_pk :: nat
  inv_customer :: nat

text \<open>The tables the admin list filters of \<open>admin.py\<close> read.\<close>

record admin_db =
  db_cards :: "card list"
  db_subscriptions :: "subscription list"

section \<open>Python truthiness of the values the code tests\<close>

definition truthy_str :: "string option \<Rightarrow> bool" where
  "truthy_str v = (case v of None \<Rightarrow> False | Some s \<Rightarrow> s \<noteq> [])"

definition truthy_int :: "int option \<Rightarrow> bool" where
  "truthy_int v = (case v of None \<Rightarrow> False | Some n \<Rightarrow> n \<noteq> 0)"

section \<open>admin.py: the list filters\<close>

text \<open>
  \<open>queryset.filter(card__isnull=b)\<close> over customers. The ORM joins the card table on
  \<open>card.customer_id = customer.id\<close>: for \<open>isnull=True\<close> a left outer join keeping the
  rows with no card (each such customer once); for \<open>isnull=False\<close> an inner join, which
  yields one row per (customer, card) pair.
\<close>

definition cards_of :: "admin_db \<Rightarrow> nat \<Rightarrow> card list" where
  "cards_of db cpk = [k \<leftarrow> db_cards db. card_customer k = cpk]"

definition filter_card_isnull :: "admin_db \<Rightarrow> bool \<Rightarrow> customer list \<Rightarrow> customer list" where
  "filter_card_isnull db b qs =
     (if b then [c \<leftarrow> qs. cards_of db (c_pk c) = []]
      else concat (map (\<lambda>c. map (\<lambda>k. c) (cards_of db (c_pk c))) qs))"

text \<open>\<open>queryset.filter(customer__card__isnull=b)\<close> over invoices: the same join through
  the invoice's customer.\<close>

definition filter_customer_card_isnull :: "admin_db \<Rightarrow> bool \<Rightarrow> invoice list \<Rightarrow> invoice list" where
  "filter_customer_card_isnull db b qs =
     (if b then [i \<leftarrow> qs. cards_of db (inv_customer i) = []]
      else concat (map (\<lambda>i. map (\<lambda>k. i) (cards_of db (inv_customer i))) qs))"

text \<open>\<open>CustomerHasCardListFilter.queryset\<close>; the first argument is \<open>self.value()\<close>.\<close>

definition CustomerHasCardListFilter_queryset ::
  "string option \<Rightarrow> admin_db \<Rightarrow> customer list \<Rightarrow> customer list" where
  "CustomerHasCardListFilter_queryset v db queryset =
     (if v = Some ''yes'' then filter_card_isnull db True queryset
      else if v = Some ''no'' then filter_card_isnull db False queryset
      else queryset)"

text \<open>\<open>InvoiceCustomerHasCardListFilter.queryset\<close>.\<close>

definition InvoiceCustomerHasCardListFilter_queryset ::
  "string option \<Rightarrow> admin_db \<Rightarrow> invoice list \<Rightarrow> invoice list" where
  "InvoiceCustomerHasCardListFilter_queryset v db queryset =
     (if v = Some ''yes'' then filter_customer_card_isnull db True queryset
      else if v = Some ''no'' then filter_customer_card_isnull db False queryset
      else queryset)"

text \<open>
  \<open>CustomerSubscriptionStatusListFilter.queryset\<close>.
  \<open>annotate(subs=Count("subscription")).filter(subs=0)\<close> groups by customer, so each
  customer of the base queryset occurs once with the number of its subscriptions.
  \<open>Subscription.objects.filter(status=v).values_list("customer", flat=True).distinct()\<close>
  ranges over all subscriptions, whatever the base queryset.
\<close>

definition count_subscription :: "admin_db \<Rightarrow> customer \<Rightarrow> nat" where
  "count_subscription db c = length [s \<leftarrow> db_subscriptions db. sub_customer s = c_pk c]"

definition CustomerSubscriptionStatusListFilter_queryset ::
  "string option \<Rightarrow> admin_db \<Rightarrow> customer list \<Rightarrow> customer list" where
  "CustomerSubscriptionStatusListFilter_queryset v db queryset =
     (if v = Some ''none'' then [c \<leftarrow> queryset. count_subscription db c = 0]
      else if truthy_str v then
        (let customers = remdups (map sub_customer
                [s \<leftarrow> db_subscriptions db. Some (sub_status s) = v])
         in [c \<leftarrow> queryset. c_pk c \<in> set customers])
      else queryset)"

section \<open>Values exchanged with the provider\<close>

text \<open>Opaque structured data (metadata, shipping, line items): Python values as JSON.
  \<open>JNull\<close> is Python's \<open>None\<close>.\<close>

datatype json = JNull | JBool bool | JInt int | JStr string
  | JList "json list" | JDict "(string \<times> json) list"

definition truthy_json :: "json \<Rightarrow> bool" where
  "truthy_json j = (case j of JNull \<Rightarrow> False | JBool b \<Rightarrow> b | JInt n \<Rightarrow> n \<noteq> 0
      | JStr s \<Rightarrow> s \<noteq> [] | JList xs \<Rightarrow> xs \<noteq> [] | JDict kvs \<Rightarrow> kvs \<noteq> [])"

text \<open>A payment source: a token, or a dictionary of card details.\<close>

datatype source = Token string | CardDetails "(string \<times> string) list"

definition truthy_source :: "source option \<Rightarrow> bool" where
  "truthy_source v = (case v of None \<Rightarrow> False | Some (Token s) \<Rightarrow> s \<noteq> []
      | Some (CardDetails kvs) \<Rightarrow> kvs \<noteq> [])"

text \<open>Exceptions. The provider's error classes are siblings below \<open>stripe.StripeError\<close>;
  the string is what \<open>smart_str(e)\<close> yields.\<close>

datatype stripe_error_class = InvalidRequestError | CardError | APIError
  | APIConnectionError | AuthenticationError | RateLimitError

datatype error = StripeError stripe_error_class string
  | ValueError string
  | DoesNotExist
  | MultipleObjectsReturned
  | IntegrityError
  | AttributeError string
  | OtherError string

definition is_InvalidRequestError :: "error \<Rightarrow> bool" where
  "is_InvalidRequestError e = (case e of StripeError c m \<Rightarrow> c = InvalidRequestError | _ \<Rightarrow> False)"

definition smart_str :: "error \<Rightarrow> string" where
  "smart_str e = (case e of StripeError c m \<Rightarrow> m | ValueError m \<Rightarrow> m
      | AttributeError m \<Rightarrow> m | OtherError m \<Rightarrow> m
      | DoesNotExist \<Rightarrow> ''matching query does not exist.''
      | MultipleObjectsReturned \<Rightarrow> ''get() returned more than one object''
      | IntegrityError \<Rightarrow> ''NOT NULL constraint failed'')"

text \<open>Python's \<open>str.find\<close>: the lowest index at which \<open>sub\<close> occurs in \<open>s\<close>, or \<open>-1\<close>.\<close>

fun str_find :: "string \<Rightarrow> string \<Rightarrow> int" where
  "str_find [] sub = (if sub = [] then 0 else - 1)"
| "str_find (c # t) sub =
     (if prefix sub (c # t) then 0
      else (let r = str_find t sub in if r < 0 then - 1 else r + 1))"

text \<open>The remote order payload; \<open>stripe_order.get(k)\<close> is the field, \<open>None\<close> when the key
  is absent or null.\<close>

record stripe_order =
  so_id :: "string option"
  so_customer :: "string option"
  so_charge :: "string option"
  so_amount :: "int option"
  so_amount_returned :: "int option"
  so_currency :: "string option"
  so_livemode :: "bool option"
  so_metadata :: json
  so_selected_shipping_method :: json
  so_shipping :: json
  so_shipping_methods :: json
  so_status :: "string option"
  so_status_transitions :: json
  so_items :: json

text \<open>The remote plan payload; every key that \<open>sync_plans\<close> subscripts is present,
  possibly null.\<close>

record stripe_plan =
  sp_id :: "string option"
  sp_amount :: "int option"
  sp_currency :: "string option"
  sp_interval :: "string option"
  sp_interval_count :: "int option"
  sp_name :: "string option"
  sp_statement_descriptor :: "string option"
  sp_trial_period_days :: "int option"

text \<open>The keyword arguments of \<open>stripe.Order.create\<close>; \<open>coupon\<close> and \<open>metadata\<close> are keys
  of the dictionary only when they were added.\<close>

record order_params =
  op_customer :: string
  op_currency :: string
  op_items :: "json list"
  op_shipping :: json
  op_coupon :: "string option"
  op_metadata :: "json option"

datatype remote_call = Call_Order_create order_params
  | Call_Order_retrieve string
  | Call_Order_pay stripe_order "source option"
  | Call_Order_return_order stripe_order "json option"
  | Call_Charge_retrieve string
  | Call_Plan_all

section \<open>The local store\<close>

text \<open>A model instance: primary key, external identifier, and the fields that the
  \<open>defaults\<close> dictionary of its sync routine assigns.\<close>

record 'v row =
  pk :: nat
  stripe_id :: string
  vals :: 'v

text \<open>A table with the number of INSERT and UPDATE statements issued on it.\<close>

record 'v table =
  rows :: "'v row list"
  saves :: nat

text \<open>The value under the key \<open>charge\<close> of the order defaults: \<open>None\<close>, a falsy raw
  value passed through as it came, or the synchronized local Charge (its primary key).\<close>

datatype charge_field = NoCharge | RawCharge string | LocalCharge nat

record order_defaults =
  od_amount :: "rat option"
  od_amount_returned :: "rat option"
  od_charge :: charge_field
  od_currency :: "string option"
  od_customer :: nat
  od_livemode :: "bool option"
  od_metadata :: json
  od_selected_shipping_method :: json
  od_shipping :: json
  od_shipping_methods :: json
  od_status :: "string option"
  od_status_transitions :: json
  od_items :: json

record plan_defaults =
  pd_amount :: "rat option"
  pd_currency :: string
  pd_interval :: "string option"
  pd_interval_count :: "int option"
  pd_name :: "string option"
  pd_statement_descriptor :: string
  pd_trial_period_days :: "int option"

type_synonym order = "order_defaults row"

record sku =
  sku_pk :: nat
  sku_stripe_id :: string

datatype item_arg = SkuInstance sku | OrderItem json

datatype pay_arg = LocalOrder order | RemoteOrder stripe_order

text \<open>
  The state a call runs in: the local tables, the tables owned by the charge sync
  routine, and the log of calls made to the provider. An exception leaves the state as
  it is at the raise, so every operation returns its result together with the state.
\<close>

record 'cs state =
  customers :: "customer list"
  orders :: "order_defaults table"
  plans :: "plan_defaults table"
  charge_tables :: 'cs
  calls :: "remote_call list"

text \<open>
  The environment of the code under \<open>actions/\<close>: the provider's SDK, as the response to
  each call, and the parts of this repository that the actions use and that are not
  among the sources at hand.
  \<^item> \<open>ZERO_DECIMAL_CURRENCIES\<close>: the constant of \<open>utils\<close>;
  \<^item> \<open>sync_charge_from_stripe_data\<close>: the charge sync routine of \<open>actions/charges\<close>,
    working on its own tables and returning the local Charge's primary key;
  \<^item> \<open>convert_to_order_item\<close>: the method of \<open>models.Sku\<close>;
  \<^item> \<open>stripe_order_of\<close>: the property \<open>stripe_order\<close> of \<open>models.Order\<close>.
  Following the SDK, \<open>pay\<close> refreshes the receiver from the response and returns it,
  and \<open>return_order\<close> returns a separate return object, leaving the receiver as it was.
\<close>

record ('ch, 'cs) env =
  ZERO_DECIMAL_CURRENCIES :: "string list"
  Order_create :: "order_params \<Rightarrow> error + stripe_order"
  Order_retrieve :: "string \<Rightarrow> error + stripe_order"
  Order_pay :: "stripe_order \<Rightarrow> source option \<Rightarrow> error + stripe_order"
  Order_return_order :: "stripe_order \<Rightarrow> json option \<Rightarrow> error + json"
  Charge_retrieve :: "string \<Rightarrow> error + 'ch"
  Plan_all :: "error + stripe_plan list"
  sync_charge_from_stripe_data :: "'ch \<Rightarrow> 'cs \<Rightarrow> (error + nat) \<times> 'cs"
  convert_to_order_item :: "sku \<Rightarrow> json"
  stripe_order_of :: "order \<Rightarrow> error + stripe_order"

definition remote :: "remote_call \<Rightarrow> 'cs state \<Rightarrow> 'cs state" where
  "remote c s = s\<lparr>calls := calls s @ [c]\<rparr>"

section \<open>utils and the ORM\<close>

text \<open>
  Modelled from the spec: \<open>utils.convert_amount_for_db\<close> is not among the sources.
  An absent amount gives an absent result; for a zero-decimal currency the integer is
  returned unchanged as a decimal; otherwise it is divided by 100.
\<close>

definition convert_amount_for_db :: "string list \<Rightarrow> int option \<Rightarrow> string option \<Rightarrow> rat option" where
  "convert_amount_for_db zdc amount currency =
     (case amount of None \<Rightarrow> None
      | Some a \<Rightarrow>
          (if (case currency of None \<Rightarrow> False | Some c \<Rightarrow> c \<in> set zdc)
           then Some (of_int a) else Some (of_int a / 100)))"

text \<open>\<open>models.Customer.objects.get(stripe_id=...)\<close>.\<close>

definition Customer_get :: "string option \<Rightarrow> customer list \<Rightarrow> error + customer" where
  "Customer_get sid cs =
     (case [c \<leftarrow> cs. Some (c_stripe_id c) = sid] of
        [] \<Rightarrow> Inl DoesNotExist
      | [c] \<Rightarrow> Inr c
      | _ # _ # _ \<Rightarrow> Inl MultipleObjectsReturned)"

definition fresh_pk :: "'v row list \<Rightarrow> nat" where
  "fresh_pk rs = Suc (Max (insert 0 (set (map pk rs))))"

text \<open>
  \<open>objects.get_or_create(stripe_id=..., defaults=defaults)\<close>: the row with that external
  identifier if there is one, else a new row holding the defaults. The identifier column
  is not nullable, so a row cannot be created for an absent identifier.
\<close>

definition get_or_create ::
  "string option \<Rightarrow> 'v \<Rightarrow> 'v table \<Rightarrow> (error + 'v row \<times> bool) \<times> 'v table" where
  "get_or_create sid defaults t =
     (case [r \<leftarrow> rows t. Some (stripe_id r) = sid] of
        [] \<Rightarrow>
          (case sid of
             None \<Rightarrow> (Inl IntegrityError, t)
           | Some i \<Rightarrow>
               (let r = \<lparr>pk = fresh_pk (rows t), stripe_id = i, vals = defaults\<rparr>
                in (Inr (r, True), t\<lparr>rows := rows t @ [r], saves := Suc (saves t)\<rparr>)))
      | [r] \<Rightarrow> (Inr (r, False), t)
      | _ # _ # _ \<Rightarrow> (Inl MultipleObjectsReturned, t))"

text \<open>
  Modelled from the spec: \<open>utils.update_with_defaults\<close> is not among the sources.
  A record that was just created is returned unchanged. Otherwise each key of the
  defaults is compared with the record's current value; if any differs, the new values
  are assigned and the record is persisted once.
\<close>

definition update_with_defaults ::
  "'v row \<Rightarrow> 'v \<Rightarrow> bool \<Rightarrow> 'v table \<Rightarrow> 'v row \<times> 'v table" where
  "update_with_defaults obj defaults created t =
     (if created then (obj, t)
      else if vals obj = defaults then (obj, t)
      else (let obj' = obj\<lparr>vals := defaults\<rparr>
            in (obj', t\<lparr>rows := map (\<lambda>r. if pk r = pk obj then obj' else r) (rows t),
                       saves := Suc (saves t)\<rparr>)))"

section \<open>actions/orders.py\<close>

text \<open>
  Lines 169 to 171 of \<open>sync_order_from_stripe_data\<close>: a truthy charge identifier is
  retrieved from the provider and synchronized; a falsy one stays what it is.
\<close>

definition sync_order_charge ::
  "('ch, 'cs) env \<Rightarrow> string option \<Rightarrow> 'cs state \<Rightarrow> (error + charge_field) \<times> 'cs state" where
  "sync_order_charge E charge s =
     (case charge of
        None \<Rightarrow> (Inr NoCharge, s)
      | Some cid \<Rightarrow>
          (if cid = [] then (Inr (RawCharge cid), s)
           else (case Charge_retrieve E cid of
                   Inl e \<Rightarrow> (Inl e, remote (Call_Charge_retrieve cid) s)
                 | Inr ch \<Rightarrow>
                     (case sync_charge_from_stripe_data E ch (charge_tables s) of
                        (Inl e, cs) \<Rightarrow>
                          (Inl e, (remote (Call_Charge_retrieve cid) s)\<lparr>charge_tables := cs\<rparr>)
                      | (Inr c, cs) \<Rightarrow>
                          (Inr (LocalCharge c),
                           (remote (Call_Charge_retrieve cid) s)\<lparr>charge_tables := cs\<rparr>)))))"

text \<open>The \<open>defaults\<close> dictionary of \<open>sync_order_from_stripe_data\<close>.\<close>

definition order_defaults_of ::
  "string list \<Rightarrow> stripe_order \<Rightarrow> charge_field \<Rightarrow> customer \<Rightarrow> order_defaults" where
  "order_defaults_of zdc stripe_order charge customer =
     (let amount = so_amount stripe_order;
          amount_returned = so_amount_returned stripe_order;
          currency = so_currency stripe_order
      in \<lparr>od_amount = convert_amount_for_db zdc amount currency,
          od_amount_returned =
            (if truthy_int amount_returned
             then convert_amount_for_db zdc amount_returned currency else None),
          od_charge = charge,
          od_currency = currency,
          od_customer = c_pk customer,
          od_livemode = so_livemode stripe_order,
          od_metadata = so_metadata stripe_order,
          od_selected_shipping_method = so_selected_shipping_method stripe_order,
          od_shipping = so_shipping stripe_order,
          od_shipping_methods = so_shipping_methods stripe_order,
          od_status = so_status stripe_order,
          od_status_transitions = so_status_transitions stripe_order,
          od_items = so_items stripe_order\<rparr>)"

definition sync_order_from_stripe_data ::
  "('ch, 'cs) env \<Rightarrow> stripe_order \<Rightarrow> 'cs state \<Rightarrow> (error + order) \<times> 'cs state" where
  "sync_order_from_stripe_data E stripe_order s =
     (case Customer_get (so_customer stripe_order) (customers s) of
        Inl e \<Rightarrow> (Inl e, s)
      | Inr customer \<Rightarrow>
          (case sync_order_charge E (so_charge stripe_order) s of
             (Inl e, s1) \<Rightarrow> (Inl e, s1)
           | (Inr charge, s1) \<Rightarrow>
               (let defaults = order_defaults_of (ZERO_DECIMAL_CURRENCIES E)
                                 stripe_order charge customer
                in (case get_or_create (so_id stripe_order) defaults (orders s1) of
                      (Inl e, t) \<Rightarrow> (Inl e, s1\<lparr>orders := t\<rparr>)
                    | (Inr (order, created), t) \<Rightarrow>
                        (case update_with_defaults order defaults created t of
                           (order', t') \<Rightarrow> (Inr order', s1\<lparr>orders := t'\<rparr>))))))"

text \<open>
  \<open>pay\<close> once the remote order object is at hand. Besides the result, the receiver
  object as it is after the call is returned: the SDK's \<open>pay\<close> refreshes it in place
  when the request succeeds and leaves it alone when the request raises.
\<close>

definition pay_stripe_order ::
  "('ch, 'cs) env \<Rightarrow> stripe_order \<Rightarrow> source option \<Rightarrow> 'cs state
     \<Rightarrow> ((error + order) \<times> stripe_order) \<times> 'cs state" where
  "pay_stripe_order E stripe_order source s =
     (let params = (if truthy_source source then source else None);
          s1 = remote (Call_Order_pay stripe_order params) s
      in (case Order_pay E stripe_order params of
            Inl e \<Rightarrow> ((Inl e, stripe_order), s1)
          | Inr paid_order \<Rightarrow>
              (case sync_order_from_stripe_data E paid_order s1 of
                 (r, s2) \<Rightarrow> ((r, paid_order), s2))))"

definition pay ::
  "('ch, 'cs) env \<Rightarrow> pay_arg \<Rightarrow> source option \<Rightarrow> 'cs state \<Rightarrow> (error + order) \<times> 'cs state" where
  "pay E order source s =
     (case order of
        RemoteOrder stripe_order \<Rightarrow>
          (case pay_stripe_order E stripe_order source s of ((r, obj), s') \<Rightarrow> (r, s'))
      | LocalOrder local \<Rightarrow>
          (case stripe_order_of E local of
             Inl e \<Rightarrow> (Inl e, s)
           | Inr stripe_order \<Rightarrow>
               (case pay_stripe_order E stripe_order source s of ((r, obj), s') \<Rightarrow> (r, s'))))"

text \<open>
  \<open>create\<close>. When the immediate payment succeeds, \<open>stripe_order\<close> is rebound to what
  \<open>pay\<close> returns, a local Order, and the final \<open>sync_order_from_stripe_data\<close> calls
  \<open>.get\<close> on that model instance, which has no such attribute.
\<close>

definition need_source_message :: string where
  "need_source_message = ''You need a 'source' in order to use 'pay_immediately'' @ [CHR 0x27]"

definition create ::
  "('ch, 'cs) env \<Rightarrow> customer \<Rightarrow> item_arg list \<Rightarrow> string \<Rightarrow> source option \<Rightarrow> json
     \<Rightarrow> string option \<Rightarrow> json \<Rightarrow> bool \<Rightarrow> 'cs state \<Rightarrow> (error + order) \<times> 'cs state" where
  "create E customer items currency source shipping coupon metadata pay_immediately s =
     (let items' = map (\<lambda>sku. case sku of SkuInstance k \<Rightarrow> convert_to_order_item E k
                                | OrderItem j \<Rightarrow> j) items;
          params = \<lparr>op_customer = c_stripe_id customer, op_currency = currency,
                    op_items = items', op_shipping = shipping,
                    op_coupon = None, op_metadata = None\<rparr>
      in if pay_immediately \<and> \<not> truthy_source source
         then (Inl (ValueError need_source_message), s)
         else
           (let params1 = (if truthy_str coupon then params\<lparr>op_coupon := coupon\<rparr> else params);
                params2 = (if truthy_json metadata
                           then params1\<lparr>op_metadata := Some metadata\<rparr> else params1);
                s1 = remote (Call_Order_create params2) s
            in (case Order_create E params2 of
                  Inl e \<Rightarrow> (Inl e, s1)
                | Inr stripe_order \<Rightarrow>
                    (if pay_immediately
                     then (case pay_stripe_order E stripe_order source s1 of
                             ((Inr local, obj), s2) \<Rightarrow>
                               (Inl (AttributeError ''get''), s2)
                           | ((Inl e, obj), s2) \<Rightarrow>
                               (if is_InvalidRequestError e
                                then sync_order_from_stripe_data E obj s2
                                else (Inl e, s2)))
                     else sync_order_from_stripe_data E stripe_order s1))))"

definition retrieve ::
  "('ch, 'cs) env \<Rightarrow> string option \<Rightarrow> 'cs state
     \<Rightarrow> (error + stripe_order option) \<times> 'cs state" where
  "retrieve E stripe_order_id s =
     (case stripe_order_id of
        None \<Rightarrow> (Inr None, s)
      | Some i \<Rightarrow>
          (if i = [] then (Inr None, s)
           else (case Order_retrieve E i of
                   Inr stripe_order \<Rightarrow> (Inr (Some stripe_order), remote (Call_Order_retrieve i) s)
                 | Inl e \<Rightarrow>
                     (if is_InvalidRequestError e
                      then (if str_find (smart_str e) ''No such order'' \<ge> 0
                            then (Inr None, remote (Call_Order_retrieve i) s)
                            else (Inl e, remote (Call_Order_retrieve i) s))
                      else (Inl e, remote (Call_Order_retrieve i) s)))))"

definition create_return ::
  "('ch, 'cs) env \<Rightarrow> order \<Rightarrow> json \<Rightarrow> 'cs state \<Rightarrow> (error + order) \<times> 'cs state" where
  "create_return E order items s =
     (case stripe_order_of E order of
        Inl e \<Rightarrow> (Inl e, s)
      | Inr stripe_order \<Rightarrow>
          (let return_params = (if truthy_json items then Some items else None);
               s1 = remote (Call_Order_return_order stripe_order return_params) s
           in (case Order_return_order E stripe_order return_params of
                 Inl e \<Rightarrow> (Inl e, s1)
               | Inr response \<Rightarrow> sync_order_from_stripe_data E stripe_order s1)))"

section \<open>actions/plans.py\<close>

definition or_empty :: "string option \<Rightarrow> string" where
  "or_empty v = (case v of None \<Rightarrow> [] | Some x \<Rightarrow> x)"

text \<open>The \<open>defaults\<close> dictionary built for one plan of the listing.\<close>

definition plan_defaults_of :: "string list \<Rightarrow> stripe_plan \<Rightarrow> plan_defaults" where
  "plan_defaults_of zdc plan =
     \<lparr>pd_amount = convert_amount_for_db zdc (sp_amount plan) (sp_currency plan),
      pd_currency = or_empty (sp_currency plan),
      pd_interval = sp_interval plan,
      pd_interval_count = sp_interval_count plan,
      pd_name = sp_name plan,
      pd_statement_descriptor = or_empty (sp_statement_descriptor plan),
      pd_trial_period_days = sp_trial_period_days plan\<rparr>"

text \<open>The \<open>for\<close> loop of \<open>sync_plans\<close> over the listing's \<open>data\<close>.\<close>

fun sync_plans_loop ::
  "('ch, 'cs) env \<Rightarrow> stripe_plan list \<Rightarrow> 'cs state \<Rightarrow> (error + unit) \<times> 'cs state" where
  "sync_plans_loop E [] s = (Inr (), s)"
| "sync_plans_loop E (plan # rest) s =
     (let defaults = plan_defaults_of (ZERO_DECIMAL_CURRENCIES E) plan
      in (case get_or_create (sp_id plan) defaults (plans s) of
            (Inl e, t) \<Rightarrow> (Inl e, s\<lparr>plans := t\<rparr>)
          | (Inr (obj, created), t) \<Rightarrow>
              (case update_with_defaults obj defaults created t of
                 (obj', t') \<Rightarrow> sync_plans_loop E rest (s\<lparr>plans := t'\<rparr>))))"

definition sync_plans :: "('ch, 'cs) env \<Rightarrow> 'cs state \<Rightarrow> (error + unit) \<times> 'cs state" where
  "sync_plans E s =
     (case Plan_all E of
        Inl e \<Rightarrow> (Inl e, remote Call_Plan_all s)
      | Inr data \<Rightarrow> sync_plans_loop E data (remote Call_Plan_all s))"

text \<open>The keyword arguments with which \<open>create\<close> calls \<open>stripe.Order.create\<close>
  (lines 26 to 42), named for the statements below.\<close>

definition create_params ::
  "('ch, 'cs) env \<Rightarrow> customer \<Rightarrow> item_arg list \<Rightarrow> string \<Rightarrow> json \<Rightarrow> string option \<Rightarrow> json
     \<Rightarrow> order_params" where
  "create_params E customer items currency shipping coupon metadata =
     \<lparr>op_customer = c_stripe_id customer, op_currency = currency,
      op_items = map (\<lambda>sku. case sku of SkuInstance k \<Rightarrow> convert_to_order_item E k
                                | OrderItem j \<Rightarrow> j) items,
      op_shipping = shipping,
      op_coupon = (if truthy_str coupon then coupon else None),
      op_metadata = (if truthy_json metadata then Some metadata else None)\<rparr>"

section \<open>A concrete provider and store\<close>

text \<open>An unpaid order of customer \<open>cus_1\<close> whose amount-returned is present and zero.\<close>

definition ex_order :: stripe_order where
  "ex_order = \<lparr>so_id = Some ''or_1'', so_customer = Some ''cus_1'', so_charge = None,
     so_amount = Some 1000, so_amount_returned = Some 0, so_currency = Some ''usd'',
     so_livemode = Some False, so_metadata = JDict [], so_selected_shipping_method = JNull,
     so_shipping = JNull, so_shipping_methods = JNull, so_status = Some ''created'',
     so_status_transitions = JNull, so_items = JList []\<rparr>"

text \<open>The same order once paid, as the provider holds it before any return.\<close>

definition ex_order_paid :: stripe_order where
  "ex_order_paid = ex_order\<lparr>so_charge := Some ''ch_1'', so_status := Some ''paid''\<rparr>"

text \<open>The same order after a partial return, with its charge.\<close>

definition ex_order_returned :: stripe_order where
  "ex_order_returned = ex_order\<lparr>so_charge := Some ''ch_1'', so_amount_returned := Some 250,
     so_status := Some ''paid''\<rparr>"

definition ex_plan :: stripe_plan where
  "ex_plan = \<lparr>sp_id = Some ''pro'', sp_amount = Some 999, sp_currency = Some ''usd'',
     sp_interval = Some ''month'', sp_interval_count = Some 1, sp_name = Some ''Pro'',
     sp_statement_descriptor = None, sp_trial_period_days = None\<rparr>"

definition ex_plan_yen :: stripe_plan where
  "ex_plan_yen = \<lparr>sp_id = Some ''yen'', sp_amount = Some 500, sp_currency = Some ''jpy'',
     sp_interval = Some ''year'', sp_interval_count = Some 1, sp_name = Some ''Yen'',
     sp_statement_descriptor = Some ''YEN'', sp_trial_period_days = Some 7\<rparr>"

text \<open>
  A provider that creates \<open>ex_order\<close>, rejects the token \<open>tok_bad\<close> as an invalid
  request and the token \<open>tok_declined\<close> with a card error, does not know the order
  \<open>or_gone\<close> and cannot be reached for any other order than \<open>or_1\<close>.
\<close>

definition ex_env :: "(unit, unit) env" where
  "ex_env = \<lparr>ZERO_DECIMAL_CURRENCIES = [''jpy'', ''krw''],
     Order_create = (\<lambda>p. Inr ex_order),
     Order_retrieve = (\<lambda>i. if i = ''or_1'' then Inr ex_order
        else if i = ''or_gone''
        then Inl (StripeError InvalidRequestError ''No such order: or_gone'')
        else Inl (StripeError APIConnectionError ''Connection refused'')),
     Order_pay = (\<lambda>so src. if src = Some (Token ''tok_bad'')
        then Inl (StripeError InvalidRequestError ''No such token: tok_bad'')
        else if src = Some (Token ''tok_declined'')
        then Inl (StripeError CardError ''Your card was declined.'')
        else Inr (so\<lparr>so_status := Some ''paid'', so_charge := Some ''ch_1''\<rparr>)),
     Order_return_order = (\<lambda>so p. Inr (JDict [(''amount'', JInt 250)])),
     Charge_retrieve = (\<lambda>c. Inr ()),
     Plan_all = Inr [ex_plan, ex_plan_yen],
     sync_charge_from_stripe_data = (\<lambda>ch cs. (Inr 7, cs)),
     convert_to_order_item = (\<lambda>k. JDict [(''type'', JStr ''sku''), (''parent'', JStr (sku_stripe_id k))]),
     stripe_order_of = (\<lambda>r. if stripe_id r = ''or_1'' then Inr ex_order_paid
        else Inl (StripeError InvalidRequestError ''No such order''))\<rparr>"

definition ex_customer :: customer where
  "ex_customer = \<lparr>c_pk = 1, c_stripe_id = ''cus_1''\<rparr>"

text \<open>The local Order of \<open>ex_order_paid\<close>.\<close>

definition ex_local_order :: order where
  "ex_local_order = \<lparr>pk = 1, stripe_id = ''or_1'',
     vals = order_defaults_of [''jpy'', ''krw''] ex_order_paid (LocalCharge 7) ex_customer\<rparr>"

definition ex_state :: "unit state" where
  "ex_state = \<lparr>customers = [ex_customer], orders = \<lparr>rows = [], saves = 0\<rparr>,
     plans = \<lparr>rows = [], saves = 0\<rparr>, charge_tables = (), calls = []\<rparr>"

section \<open>Properties of the list filters\<close>

text \<open>
  C1. The card-presence filter should give, for \<open>has_card=yes\<close>, the customers with at
  least one card and, for \<open>has_card=no\<close>, the customers with none (as the labels
  "Has Card" and "Does Not Have a Card" of \<open>lookups\<close> say). Evaluated on a database with
  customer 1 owning a card and customer 2 owning none, the code answers the other way
  round, for the customer list and for the invoice list alike.
\<close>

theorem has_card_filter_inverted:
  "CustomerHasCardListFilter_queryset (Some ''yes'')
      \<lparr>db_cards = [\<lparr>card_pk = 1, card_customer = 1, card_fingerprint = ''fp''\<rparr>],
       db_subscriptions = []\<rparr>
      [\<lparr>c_pk = 1, c_stripe_id = ''cus_1''\<rparr>, \<lparr>c_pk = 2, c_stripe_id = ''cus_2''\<rparr>]
     = [\<lparr>c_pk = 2, c_stripe_id = ''cus_2''\<rparr>]
   \<and> CustomerHasCardListFilter_queryset (Some ''no'')
      \<lparr>db_cards = [\<lparr>card_pk = 1, card_customer = 1, card_fingerprint = ''fp''\<rparr>],
       db_subscriptions = []\<rparr>
      [\<lparr>c_pk = 1, c_stripe_id = ''cus_1''\<rparr>, \<lparr>c_pk = 2, c_stripe_id = ''cus_2''\<rparr>]
     = [\<lparr>c_pk = 1, c_stripe_id = ''cus_1''\<rparr>]
   \<and> InvoiceCustomerHasCardListFilter_queryset (Some ''yes'')
      \<lparr>db_cards = [\<lparr>card_pk = 1, card_customer = 1, card_fingerprint = ''fp''\<rparr>],
       db_subscriptions = []\<rparr>
      [\<lparr>inv_pk = 1, inv_customer = 1\<rparr>, \<lparr>inv_pk = 2, inv_customer = 2\<rparr>]
     = [\<lparr>inv_pk = 2, inv_customer = 2\<rparr>]
   \<and> InvoiceCustomerHasCardListFilter_queryset (Some ''no'')
      \<lparr>db_cards = [\<lparr>card_pk = 1, card_customer = 1, card_fingerprint = ''fp''\<rparr>],
       db_subscriptions = []\<rparr>
      [\<lparr>inv_pk = 1, inv_customer = 1\<rparr>, \<lparr>inv_pk = 2, inv_customer = 2\<rparr>]
     = [\<lparr>inv_pk = 1, inv_customer = 1\<rparr>]"
  by (simp add: CustomerHasCardListFilter_queryset_def
      InvoiceCustomerHasCardListFilter_queryset_def filter_card_isnull_def
      filter_customer_card_isnull_def cards_of_def)

text \<open>
  C7. The subscription-status filter: the value \<open>none\<close> keeps exactly the customers of
  the base queryset with zero subscriptions; any other non-empty value keeps exactly
  those with at least one subscription of that status; with no value (or the empty
  string) the queryset comes back as it is.
\<close>

theorem sub_status_filter_exact:
  "CustomerSubscriptionStatusListFilter_queryset (Some ''none'') db qs
     = [c \<leftarrow> qs. \<not> (\<exists>s \<in> set (db_subscriptions db). sub_customer s = c_pk c)]
   \<and> (v \<noteq> ''none'' \<and> v \<noteq> '''' \<longrightarrow>
        CustomerSubscriptionStatusListFilter_queryset (Some v) db qs
          = [c \<leftarrow> qs. \<exists>s \<in> set (db_subscriptions db).
                          sub_customer s = c_pk c \<and> sub_status s = v])
   \<and> CustomerSubscriptionStatusListFilter_queryset None db qs = qs
   \<and> CustomerSubscriptionStatusListFilter_queryset (Some '''') db qs = qs"
proof -
  have none: "\<And>c. (count_subscription db c = 0)
      = (\<not> (\<exists>s \<in> set (db_subscriptions db). sub_customer s = c_pk c))"
    by (auto simp: count_subscription_def filter_empty_conv)
  have some: "\<And>c. (c_pk c \<in> sub_customer ` {s \<in> set (db_subscriptions db). sub_status s = v})
      = (\<exists>s \<in> set (db_subscriptions db). sub_customer s = c_pk c \<and> sub_status s = v)"
    by force
  show ?thesis
    by (simp add: CustomerSubscriptionStatusListFilter_queryset_def truthy_str_def none some)
qed

theorem sub_status_filter_exact_witness:
  "''active'' \<noteq> ''none'' \<and> ''active'' \<noteq> '''' \<and>
   CustomerSubscriptionStatusListFilter_queryset (Some ''active'')
      \<lparr>db_cards = [],
       db_subscriptions = [\<lparr>sub_pk = 1, sub_customer = 1, sub_status = ''active''\<rparr>,
                           \<lparr>sub_pk = 2, sub_customer = 2, sub_status = ''canceled''\<rparr>]\<rparr>
      [\<lparr>c_pk = 1, c_stripe_id = ''cus_1''\<rparr>, \<lparr>c_pk = 2, c_stripe_id = ''cus_2''\<rparr>,
       \<lparr>c_pk = 3, c_stripe_id = ''cus_3''\<rparr>]
     = [\<lparr>c_pk = 1, c_stripe_id = ''cus_1''\<rparr>]
   \<and> CustomerSubscriptionStatusListFilter_queryset (Some ''none'')
      \<lparr>db_cards = [],
       db_subscriptions = [\<lparr>sub_pk = 1, sub_customer = 1, sub_status = ''active''\<rparr>,
                           \<lparr>sub_pk = 2, sub_customer = 2, sub_status = ''canceled''\<rparr>]\<rparr>
      [\<lparr>c_pk = 1, c_stripe_id = ''cus_1''\<rparr>, \<lparr>c_pk = 2, c_stripe_id = ''cus_2''\<rparr>,
       \<lparr>c_pk = 3, c_stripe_id = ''cus_3''\<rparr>]
     = [\<lparr>c_pk = 3, c_stripe_id = ''cus_3''\<rparr>]"
  using sub_status_filter_exact [of
      "\<lparr>db_cards = [],
       db_subscriptions = [\<lparr>sub_pk = 1, sub_customer = 1, sub_status = ''active''\<rparr>,
                           \<lparr>sub_pk = 2, sub_customer = 2, sub_status = ''canceled''\<rparr>]\<rparr>"
      "[\<lparr>c_pk = 1, c_stripe_id = ''cus_1''\<rparr>, \<lparr>c_pk = 2, c_stripe_id = ''cus_2''\<rparr>,
       \<lparr>c_pk = 3, c_stripe_id = ''cus_3''\<rparr>]" "''active''"]
  by simp

section \<open>Properties of the order actions\<close>

lemma str_find_sublist: "(str_find s sub \<ge> 0) = sublist sub s"
  by (induction s) (auto simp: Let_def sublist_Cons_right)

lemma str_find_contains: "(str_find s sub \<ge> 0) = (\<exists>a b. s = a @ sub @ b)"
  by (simp add: str_find_sublist sublist_def)

lemma Customer_get_none:
  "\<forall>c \<in> set cs. Some (c_stripe_id c) \<noteq> sid \<Longrightarrow> Customer_get sid cs = Inl DoesNotExist"
proof -
  assume "\<forall>c \<in> set cs. Some (c_stripe_id c) \<noteq> sid"
  then have "[c \<leftarrow> cs. Some (c_stripe_id c) = sid] = []"
    by (simp add: filter_empty_conv)
  then show ?thesis by (simp add: Customer_get_def)
qed

text \<open>
  C5. When no local Customer has the remote order's customer identifier, the order sync
  raises the lookup failure \<open>DoesNotExist\<close> and leaves the state as it was: no customer
  and no order is created, and no result is returned in place of the failure.
\<close>

theorem sync_order_unknown_customer_propagates:
  "\<forall>c \<in> set (customers s). Some (c_stripe_id c) \<noteq> so_customer stripe_order \<Longrightarrow>
   sync_order_from_stripe_data E stripe_order s = (Inl DoesNotExist, s)"
  by (simp add: sync_order_from_stripe_data_def Customer_get_none)

theorem sync_order_unknown_customer_propagates_witness:
  "map c_stripe_id (customers ex_state) = [''cus_1'']
   \<and> sync_order_from_stripe_data ex_env (ex_order\<lparr>so_customer := Some ''cus_9''\<rparr>) ex_state
       = (Inl DoesNotExist, ex_state)"
proof -
  have h: "\<forall>c \<in> set (customers ex_state).
       Some (c_stripe_id c) \<noteq> so_customer (ex_order\<lparr>so_customer := Some ''cus_9''\<rparr>)"
    by (simp add: ex_state_def ex_customer_def)
  from sync_order_unknown_customer_propagates [OF h, of ex_env] show ?thesis
    by (simp add: ex_state_def ex_customer_def)
qed

text \<open>
  C3. With \<open>pay_immediately\<close> set and no (truthy) source, \<open>create\<close> raises \<open>ValueError\<close>
  in the state it was called in: the log of provider calls has not grown, so no remote
  order was created.
\<close>

theorem create_pay_immediately_needs_source:
  "\<not> truthy_source source \<Longrightarrow>
   create E customer items currency source shipping coupon metadata True s
     = (Inl (ValueError need_source_message), s)"
  by (simp add: create_def)

theorem create_pay_immediately_needs_source_witness:
  "\<not> truthy_source None \<and>
   create ex_env ex_customer [OrderItem (JStr ''sku_1'')] ''usd'' None JNull None JNull True ex_state
     = (Inl (ValueError need_source_message), ex_state)
   \<and> calls (snd (create ex_env ex_customer [OrderItem (JStr ''sku_1'')] ''usd'' None JNull None
                    JNull True ex_state)) = []"
proof -
  have h: "\<not> truthy_source None" by (simp add: truthy_source_def)
  from h create_pay_immediately_needs_source [OF h, of ex_env ex_customer
      "[OrderItem (JStr ''sku_1'')]" "''usd''" JNull None JNull ex_state]
  show ?thesis by (simp add: ex_state_def)
qed

text \<open>
  C4. \<open>retrieve\<close> with an absent or empty identifier returns \<open>None\<close> in the unchanged
  state (no call to the provider); an invalid-request error whose message contains
  \<open>No such order\<close> gives \<open>None\<close>; every other error of the provider is raised as it is.
\<close>

theorem retrieve_absent_or_not_found:
  "(\<not> truthy_str oid \<longrightarrow> retrieve E oid s = (Inr None, s))
   \<and> (i \<noteq> [] \<and> Order_retrieve E i = Inl (StripeError InvalidRequestError msg)
        \<and> (\<exists>a b. msg = a @ ''No such order'' @ b)
      \<longrightarrow> retrieve E (Some i) s = (Inr None, remote (Call_Order_retrieve i) s))
   \<and> (i \<noteq> [] \<and> Order_retrieve E i = Inl e
        \<and> \<not> (is_InvalidRequestError e \<and> (\<exists>a b. smart_str e = a @ ''No such order'' @ b))
      \<longrightarrow> retrieve E (Some i) s = (Inl e, remote (Call_Order_retrieve i) s))"
  by (auto simp: retrieve_def truthy_str_def str_find_contains is_InvalidRequestError_def
      smart_str_def split: option.splits)

theorem retrieve_absent_or_not_found_witness:
  "retrieve ex_env None ex_state = (Inr None, ex_state)
   \<and> retrieve ex_env (Some []) ex_state = (Inr None, ex_state)
   \<and> retrieve ex_env (Some ''or_gone'') ex_state
       = (Inr None, remote (Call_Order_retrieve ''or_gone'') ex_state)
   \<and> retrieve ex_env (Some ''or_2'') ex_state
       = (Inl (StripeError APIConnectionError ''Connection refused''),
          remote (Call_Order_retrieve ''or_2'') ex_state)"
proof -
  have ex: "\<exists>a b. ''No such order: or_gone'' = a @ ''No such order'' @ b"
    by (rule exI [of _ "[]"], rule exI [of _ "'': or_gone''"]) simp
  have gone: "Order_retrieve ex_env ''or_gone''
      = Inl (StripeError InvalidRequestError ''No such order: or_gone'')"
    by (simp add: ex_env_def)
  have down: "Order_retrieve ex_env ''or_2''
      = Inl (StripeError APIConnectionError ''Connection refused'')"
    by (simp add: ex_env_def)
  have other: "\<not> (is_InvalidRequestError (StripeError APIConnectionError ''Connection refused'')
      \<and> (\<exists>a b. smart_str (StripeError APIConnectionError ''Connection refused'')
                 = a @ ''No such order'' @ b))"
    by (simp add: is_InvalidRequestError_def)
  from ex gone down other
    retrieve_absent_or_not_found [of None ex_env ex_state "''or_gone''"
      "''No such order: or_gone''" "StripeError InvalidRequestError ''x''"]
    retrieve_absent_or_not_found [of "Some []" ex_env ex_state "''or_2''" "''''"
      "StripeError APIConnectionError ''Connection refused''"]
  show ?thesis by (simp add: truthy_str_def)
qed

section \<open>Properties of the order sync routine\<close>

lemma filter_singleton_mem: "filter P xs = [x] \<Longrightarrow> x \<in> set xs \<and> P x"
  by (metis list.set_intros(1) mem_Collect_eq set_filter)

lemma upsert_result:
  assumes "get_or_create sid v t = (Inr (obj, created), t1)"
    and "update_with_defaults obj v created t1 = (r, t2)"
  shows "vals r = v \<and> Some (stripe_id r) = sid \<and> r \<in> set (rows t2)"
proof (cases "[x \<leftarrow> rows t. Some (stripe_id x) = sid]")
  case Nil
  with assms show ?thesis
    by (auto simp: get_or_create_def update_with_defaults_def Let_def split: option.splits)
next
  case (Cons a as)
  with assms have as: "as = []" and obj: "obj = a" and c: "\<not> created" and t1: "t1 = t"
    by (auto simp: get_or_create_def split: list.splits)
  from Cons as have mem: "a \<in> set (rows t) \<and> Some (stripe_id a) = sid"
    using filter_singleton_mem [of "\<lambda>x. Some (stripe_id x) = sid" "rows t" a] by simp
  show ?thesis
  proof (cases "vals a = v")
    case True
    with assms(2) obj c t1 mem show ?thesis by (simp add: update_with_defaults_def)
  next
    case False
    with assms(2) obj c t1 have r: "r = a\<lparr>vals := v\<rparr>"
      and t2: "rows t2 = map (\<lambda>x. if pk x = pk a then a\<lparr>vals := v\<rparr> else x) (rows t)"
      by (auto simp: update_with_defaults_def Let_def)
    from mem have "(\<lambda>x. if pk x = pk a then a\<lparr>vals := v\<rparr> else x) a \<in> set (rows t2)"
      unfolding t2 by (simp only: set_map) (rule imageI, simp)
    with r mem show ?thesis by simp
  qed
qed

lemma sync_order_result:
  assumes "sync_order_from_stripe_data E so s = (Inr r, s')"
  shows "\<exists>c ch. vals r = order_defaults_of (ZERO_DECIMAL_CURRENCIES E) so ch c
           \<and> Customer_get (so_customer so) (customers s) = Inr c
           \<and> fst (sync_order_charge E (so_charge so) s) = Inr ch
           \<and> Some (stripe_id r) = so_id so \<and> r \<in> set (rows (orders s'))"
proof -
  from assms obtain c where c: "Customer_get (so_customer so) (customers s) = Inr c"
    by (auto simp: sync_order_from_stripe_data_def split: sum.splits)
  from assms c obtain ch s1 where ch: "sync_order_charge E (so_charge so) s = (Inr ch, s1)"
    by (auto simp: sync_order_from_stripe_data_def split: sum.splits prod.splits)
  define d where "d = order_defaults_of (ZERO_DECIMAL_CURRENCIES E) so ch c"
  from assms c ch obtain obj created t where
    g: "get_or_create (so_id so) d (orders s1) = (Inr (obj, created), t)"
    by (auto simp: sync_order_from_stripe_data_def d_def Let_def split: sum.splits prod.splits)
  from assms c ch g obtain t' where
    u: "update_with_defaults obj d created t = (r, t')" and s': "s' = s1\<lparr>orders := t'\<rparr>"
    by (auto simp: sync_order_from_stripe_data_def d_def Let_def split: sum.splits prod.splits)
  from upsert_result [OF g u] s' c ch show ?thesis by (auto simp: d_def)
qed

lemma od_amount_returned_defaults:
  "od_amount_returned (order_defaults_of zdc so ch c)
     = (if truthy_int (so_amount_returned so)
        then convert_amount_for_db zdc (so_amount_returned so) (so_currency so) else None)"
  by (simp add: order_defaults_of_def Let_def)

lemma distinct_map_filter:
  "distinct (map f xs) \<Longrightarrow> x \<in> set xs \<Longrightarrow> [y \<leftarrow> xs. f y = f x] = [x]"
proof (induction xs)
  case Nil
  then show ?case by simp
next
  case (Cons a xs)
  show ?case
  proof (cases "a = x")
    case True
    with Cons.prems have "f x \<notin> f ` set xs" by simp
    then have "\<forall>y \<in> set xs. f y \<noteq> f x" by (metis imageI)
    then have "[y \<leftarrow> xs. f y = f x] = []" by (simp add: filter_empty_conv)
    with True show ?thesis by simp
  next
    case False
    with Cons.prems have "x \<in> set xs" and "f a \<noteq> f x" by auto
    with Cons show ?thesis by simp
  qed
qed

lemma Customer_get_unique:
  assumes "customer \<in> set cs" and "distinct (map c_stripe_id cs)"
  shows "Customer_get (Some (c_stripe_id customer)) cs = Inr customer"
  using distinct_map_filter [OF assms(2) assms(1)] by (simp add: Customer_get_def)

lemma get_or_create_total:
  assumes "distinct (map stripe_id (rows t))"
  shows "\<exists>obj created t'. get_or_create (Some i) v t = (Inr (obj, created), t')"
proof (cases "\<exists>x \<in> set (rows t). stripe_id x = i")
  case True
  then obtain x where "x \<in> set (rows t)" and "stripe_id x = i" by blast
  with distinct_map_filter [OF assms, of x] show ?thesis
    by (auto simp: get_or_create_def)
next
  case False
  then have "[r \<leftarrow> rows t. stripe_id r = i] = []" by (simp add: filter_empty_conv)
  then show ?thesis by (auto simp: get_or_create_def Let_def)
qed

lemma sync_order_returns:
  assumes "customer \<in> set (customers s)" and "distinct (map c_stripe_id (customers s))"
    and "distinct (map stripe_id (rows (orders s)))"
    and "so_customer so = Some (c_stripe_id customer)" and "so_charge so = None"
    and "so_id so = Some i"
  shows "\<exists>r s'. sync_order_from_stripe_data E so s = (Inr r, s') \<and> stripe_id r = i
           \<and> vals r = order_defaults_of (ZERO_DECIMAL_CURRENCIES E) so NoCharge customer
           \<and> r \<in> set (rows (orders s'))"
proof -
  define d where "d = order_defaults_of (ZERO_DECIMAL_CURRENCIES E) so NoCharge customer"
  from get_or_create_total [OF assms(3), of i d] obtain obj created t where
    g: "get_or_create (Some i) d (orders s) = (Inr (obj, created), t)" by blast
  obtain r t' where u: "update_with_defaults obj d created t = (r, t')"
    by (cases "update_with_defaults obj d created t") blast
  have "sync_order_from_stripe_data E so s = (Inr r, s\<lparr>orders := t'\<rparr>)"
    using assms g u
    by (simp add: sync_order_from_stripe_data_def Customer_get_unique sync_order_charge_def d_def)
  with upsert_result [OF g u] show ?thesis by (auto simp: d_def)
qed

lemmas model_defs = sync_order_from_stripe_data_def Customer_get_def sync_order_charge_def
  get_or_create_def update_with_defaults_def order_defaults_of_def convert_amount_for_db_def
  fresh_pk_def remote_def truthy_int_def truthy_str_def truthy_source_def truthy_json_def
  is_InvalidRequestError_def Let_def

lemmas fixture_defs = ex_env_def ex_state_def ex_order_def ex_order_returned_def
  ex_order_paid_def ex_local_order_def
  ex_customer_def ex_plan_def ex_plan_yen_def

lemma ex_sync_returned:
  "fst (sync_order_from_stripe_data ex_env ex_order_returned ex_state)
     = Inr \<lparr>pk = 1, stripe_id = ''or_1'',
            vals = order_defaults_of [''jpy'', ''krw''] ex_order_returned (LocalCharge 7) ex_customer\<rparr>"
  by (simp add: model_defs fixture_defs)

lemma ex_sync_zero:
  "fst (sync_order_from_stripe_data ex_env ex_order ex_state)
     = Inr \<lparr>pk = 1, stripe_id = ''or_1'',
            vals = order_defaults_of [''jpy'', ''krw''] ex_order NoCharge ex_customer\<rparr>"
  by (simp add: model_defs fixture_defs)

text \<open>
  C8, as the code has it. A successful order sync returns a record of the orders table
  whose \<open>amount_returned\<close> is absent when the payload's amount-returned is absent, and
  also when it is zero; when it is present and not zero it is the Amount Converter's
  result for the order's currency.
\<close>

theorem sync_order_amount_returned_falsy_absent:
  "fst (sync_order_from_stripe_data E so s) = Inr r \<Longrightarrow>
   r \<in> set (rows (orders (snd (sync_order_from_stripe_data E so s)))) \<and>
   od_amount_returned (vals r) =
     (case so_amount_returned so of
        None \<Rightarrow> None
      | Some n \<Rightarrow> (if n = 0 then None
                  else convert_amount_for_db (ZERO_DECIMAL_CURRENCIES E) (Some n) (so_currency so)))"
  using sync_order_result [of E so s r "snd (sync_order_from_stripe_data E so s)"]
  by (auto simp: od_amount_returned_defaults truthy_int_def prod_eq_iff split: option.splits)

theorem sync_order_amount_returned_falsy_absent_witness:
  "od_amount_returned
     (order_defaults_of [''jpy'', ''krw''] ex_order_returned (LocalCharge 7) ex_customer)
     = Some (5 / 2)
   \<and> \<lparr>pk = 1, stripe_id = ''or_1'',
       vals = order_defaults_of [''jpy'', ''krw''] ex_order_returned (LocalCharge 7) ex_customer\<rparr>
     \<in> set (rows (orders (snd (sync_order_from_stripe_data ex_env ex_order_returned ex_state))))"
  using sync_order_amount_returned_falsy_absent [OF ex_sync_returned]
  by (simp add: fixture_defs convert_amount_for_db_def)

text \<open>
  C8 as stated fails for a present amount-returned of zero: the converter gives the
  decimal 0 for it, and the sync stores an absent value.
\<close>

theorem sync_order_amount_returned_present_zero_counterexample:
  "so_amount_returned ex_order = Some 0
   \<and> map_sum id (\<lambda>r. od_amount_returned (vals r))
        (fst (sync_order_from_stripe_data ex_env ex_order ex_state)) = Inr None
   \<and> convert_amount_for_db (ZERO_DECIMAL_CURRENCIES ex_env) (so_amount_returned ex_order)
        (so_currency ex_order) = Some 0"
  by (simp add: ex_sync_zero) (simp add: model_defs fixture_defs)


text \<open>
  C9. A payload whose amount-returned is exactly zero is synchronized as the same
  payload without amount-returned: the stored \<open>amount_returned\<close> is absent, although the
  converter would give the decimal 0. When the customer is in the local store, external
  identifiers are unique there, and the payload names this customer, has an identifier
  and no charge, the sync does return a record of the orders table, keyed by the
  payload's identifier, whose \<open>amount_returned\<close> is absent.
\<close>

theorem sync_order_zero_amount_returned_like_absent:
  "so_amount_returned so = Some 0 \<Longrightarrow>
   sync_order_from_stripe_data E so s
     = sync_order_from_stripe_data E (so\<lparr>so_amount_returned := None\<rparr>) s
   \<and> convert_amount_for_db (ZERO_DECIMAL_CURRENCIES E) (so_amount_returned so) (so_currency so)
        = Some 0
   \<and> (\<forall>r. fst (sync_order_from_stripe_data E so s) = Inr r \<longrightarrow>
         od_amount_returned (vals r) = None
         \<and> r \<in> set (rows (orders (snd (sync_order_from_stripe_data E so s)))))
   \<and> (customer \<in> set (customers s) \<and> distinct (map c_stripe_id (customers s))
        \<and> distinct (map stripe_id (rows (orders s)))
        \<and> so_customer so = Some (c_stripe_id customer) \<and> so_charge so = None
        \<and> so_id so = Some i \<longrightarrow>
        (\<exists>r. fst (sync_order_from_stripe_data E so s) = Inr r \<and> stripe_id r = i
           \<and> od_amount_returned (vals r) = None
           \<and> r \<in> set (rows (orders (snd (sync_order_from_stripe_data E so s))))))"
proof (intro conjI allI impI)
  assume z: "so_amount_returned so = Some 0"
    and k: "customer \<in> set (customers s) \<and> distinct (map c_stripe_id (customers s))
        \<and> distinct (map stripe_id (rows (orders s)))
        \<and> so_customer so = Some (c_stripe_id customer) \<and> so_charge so = None
        \<and> so_id so = Some i"
  from k sync_order_returns [of customer s so i E] obtain r s' where
    run: "sync_order_from_stripe_data E so s = (Inr r, s')" and sid: "stripe_id r = i"
    and v: "vals r = order_defaults_of (ZERO_DECIMAL_CURRENCIES E) so NoCharge customer"
    and mem: "r \<in> set (rows (orders s'))"
    by blast
  from v z have "od_amount_returned (vals r) = None"
    by (simp add: od_amount_returned_defaults truthy_int_def)
  with run sid mem
  show "\<exists>r. fst (sync_order_from_stripe_data E so s) = Inr r \<and> stripe_id r = i
           \<and> od_amount_returned (vals r) = None
           \<and> r \<in> set (rows (orders (snd (sync_order_from_stripe_data E so s))))"
    by auto
next
  assume z: "so_amount_returned so = Some 0"
  have "\<And>ch c. order_defaults_of (ZERO_DECIMAL_CURRENCIES E) so ch c
      = order_defaults_of (ZERO_DECIMAL_CURRENCIES E) (so\<lparr>so_amount_returned := None\<rparr>) ch c"
    using z by (simp add: order_defaults_of_def truthy_int_def)
  then show "sync_order_from_stripe_data E so s
     = sync_order_from_stripe_data E (so\<lparr>so_amount_returned := None\<rparr>) s"
    by (simp add: sync_order_from_stripe_data_def split: sum.splits prod.splits)
  show "convert_amount_for_db (ZERO_DECIMAL_CURRENCIES E) (so_amount_returned so) (so_currency so)
        = Some 0"
    using z by (simp add: convert_amount_for_db_def)
next
  fix r
  assume z: "so_amount_returned so = Some 0"
    and "fst (sync_order_from_stripe_data E so s) = Inr r"
  then have "sync_order_from_stripe_data E so s
      = (Inr r, snd (sync_order_from_stripe_data E so s))"
    by (simp add: prod_eq_iff)
  from sync_order_result [OF this] z
  show "od_amount_returned (vals r) = None"
    and "r \<in> set (rows (orders (snd (sync_order_from_stripe_data E so s))))"
    by (auto simp: od_amount_returned_defaults truthy_int_def)
qed

theorem sync_order_zero_amount_returned_like_absent_witness:
  "sync_order_from_stripe_data ex_env ex_order ex_state
     = sync_order_from_stripe_data ex_env (ex_order\<lparr>so_amount_returned := None\<rparr>) ex_state
   \<and> so_amount_returned ex_order = Some 0
   \<and> fst (sync_order_from_stripe_data ex_env ex_order ex_state)
       = Inr \<lparr>pk = 1, stripe_id = ''or_1'',
              vals = order_defaults_of [''jpy'', ''krw''] ex_order NoCharge ex_customer\<rparr>
   \<and> \<lparr>pk = 1, stripe_id = ''or_1'',
       vals = order_defaults_of [''jpy'', ''krw''] ex_order NoCharge ex_customer\<rparr>
       \<in> set (rows (orders (snd (sync_order_from_stripe_data ex_env ex_order ex_state))))
   \<and> map (\<lambda>r. od_amount_returned (vals r))
        (rows (orders (snd (sync_order_from_stripe_data ex_env ex_order ex_state)))) = [None]
   \<and> od_amount_returned
        (order_defaults_of [''jpy'', ''krw''] ex_order NoCharge ex_customer) = None
   \<and> convert_amount_for_db (ZERO_DECIMAL_CURRENCIES ex_env) (Some 0) (Some ''usd'') = Some 0"
proof -
  let ?r = "\<lparr>pk = 1, stripe_id = ''or_1'',
       vals = order_defaults_of [''jpy'', ''krw''] ex_order NoCharge ex_customer\<rparr>"
  have z: "so_amount_returned ex_order = Some 0" by (simp add: ex_order_def)
  have k: "ex_customer \<in> set (customers ex_state)
      \<and> distinct (map c_stripe_id (customers ex_state))
      \<and> distinct (map stripe_id (rows (orders ex_state)))
      \<and> so_customer ex_order = Some (c_stripe_id ex_customer) \<and> so_charge ex_order = None
      \<and> so_id ex_order = Some ''or_1''"
    by (simp add: ex_state_def ex_order_def ex_customer_def)
  note t = sync_order_zero_amount_returned_like_absent [OF z, of ex_env ex_state ex_customer
      "''or_1''"]
  from t have a: "sync_order_from_stripe_data ex_env ex_order ex_state
     = sync_order_from_stripe_data ex_env (ex_order\<lparr>so_amount_returned := None\<rparr>) ex_state"
    by (rule conjunct1)
  from t k obtain r where
    run: "fst (sync_order_from_stripe_data ex_env ex_order ex_state) = Inr r"
    and none: "od_amount_returned (vals r) = None"
    and mem: "r \<in> set (rows (orders (snd (sync_order_from_stripe_data ex_env ex_order ex_state))))"
    by blast
  from run ex_sync_zero have r: "r = ?r" by simp
  from run r have b: "fst (sync_order_from_stripe_data ex_env ex_order ex_state) = Inr ?r"
    by simp
  from mem r have m: "?r \<in> set (rows (orders (snd (sync_order_from_stripe_data ex_env ex_order
      ex_state))))"
    by simp
  from none r have n: "od_amount_returned
        (order_defaults_of [''jpy'', ''krw''] ex_order NoCharge ex_customer) = None"
    by simp
  have rows1: "rows (orders (snd (sync_order_from_stripe_data ex_env ex_order ex_state))) = [?r]"
    by (simp add: model_defs fixture_defs)
  from n rows1 have l: "map (\<lambda>r. od_amount_returned (vals r))
        (rows (orders (snd (sync_order_from_stripe_data ex_env ex_order ex_state)))) = [None]"
    by simp
  from t z have c: "convert_amount_for_db (ZERO_DECIMAL_CURRENCIES ex_env) (Some 0)
      (Some ''usd'') = Some 0"
    by (simp add: ex_order_def)
  from a z b m l n c show ?thesis by (intro conjI)
qed

text \<open>
  C10. When the return operation succeeds, \<open>create_return\<close> is the sync of the remote
  order object it obtained before the call; the provider's response does not enter the
  result (replacing it by any other response changes nothing), and the stored
  \<open>amount_returned\<close> is the one computed from that order object.
\<close>

theorem create_return_syncs_in_memory_order:
  "stripe_order_of E order = Inr so \<Longrightarrow>
   Order_return_order E so (if truthy_json items then Some items else None) = Inr response \<Longrightarrow>
   create_return E order items s
     = sync_order_from_stripe_data E so
         (remote (Call_Order_return_order so (if truthy_json items then Some items else None)) s)
   \<and> create_return (E\<lparr>Order_return_order := (\<lambda>x p. Inr response')\<rparr>) order items s
     = create_return E order items s
   \<and> (\<forall>r. fst (create_return E order items s) = Inr r \<longrightarrow>
         od_amount_returned (vals r)
           = (if truthy_int (so_amount_returned so)
              then convert_amount_for_db (ZERO_DECIMAL_CURRENCIES E)
                     (so_amount_returned so) (so_currency so)
              else None))"
proof (intro conjI allI impI)
  assume so: "stripe_order_of E order = Inr so"
    and ret: "Order_return_order E so (if truthy_json items then Some items else None)
               = Inr response"
  show eq: "create_return E order items s
     = sync_order_from_stripe_data E so
         (remote (Call_Order_return_order so (if truthy_json items then Some items else None)) s)"
    using so ret by (simp add: create_return_def Let_def)
  have indep: "\<And>f x. sync_order_from_stripe_data (E\<lparr>Order_return_order := f\<rparr>) so x
      = sync_order_from_stripe_data E so x"
    by (simp add: sync_order_from_stripe_data_def sync_order_charge_def
        cong: sum.case_cong prod.case_cong option.case_cong if_cong)
  show "create_return (E\<lparr>Order_return_order := (\<lambda>x p. Inr response')\<rparr>) order items s
     = create_return E order items s"
    unfolding eq using so by (simp add: create_return_def Let_def indep)
  fix r
  assume "fst (create_return E order items s) = Inr r"
  then have "sync_order_from_stripe_data E so
         (remote (Call_Order_return_order so (if truthy_json items then Some items else None)) s)
      = (Inr r, snd (create_return E order items s))"
    unfolding eq by (simp add: prod_eq_iff)
  from sync_order_result [OF this]
  show "od_amount_returned (vals r)
           = (if truthy_int (so_amount_returned so)
              then convert_amount_for_db (ZERO_DECIMAL_CURRENCIES E)
                     (so_amount_returned so) (so_currency so)
              else None)"
    by (auto simp: od_amount_returned_defaults)
qed

theorem create_return_syncs_in_memory_order_witness:
  "fst (create_return ex_env ex_local_order JNull ex_state) = Inr ex_local_order
   \<and> od_amount_returned (vals ex_local_order) = None
   \<and> create_return (ex_env\<lparr>Order_return_order := (\<lambda>x p. Inr JNull)\<rparr>) ex_local_order JNull ex_state
     = create_return ex_env ex_local_order JNull ex_state"
proof -
  have so: "stripe_order_of ex_env ex_local_order = Inr ex_order_paid"
    by (simp add: ex_env_def ex_local_order_def)
  have ret: "Order_return_order ex_env ex_order_paid
      (if truthy_json JNull then Some JNull else None) = Inr (JDict [(''amount'', JInt 250)])"
    by (simp add: ex_env_def)
  note t = create_return_syncs_in_memory_order [OF so ret, of ex_state JNull]
  from t have a: "create_return ex_env ex_local_order JNull ex_state
     = sync_order_from_stripe_data ex_env ex_order_paid
         (remote (Call_Order_return_order ex_order_paid
            (if truthy_json JNull then Some JNull else None)) ex_state)"
    by (rule conjunct1)
  have b: "fst (create_return ex_env ex_local_order JNull ex_state) = Inr ex_local_order"
    unfolding a by (simp add: model_defs fixture_defs)
  from t b have c: "od_amount_returned (vals ex_local_order) = None"
    by (simp add: truthy_int_def ex_order_paid_def ex_order_def)
  from t have d: "create_return (ex_env\<lparr>Order_return_order := (\<lambda>x p. Inr JNull)\<rparr>)
      ex_local_order JNull ex_state = create_return ex_env ex_local_order JNull ex_state"
    by simp
  from b c d show ?thesis by (intro conjI)
qed

section \<open>Properties of order creation\<close>

text \<open>
  C2. With \<open>pay_immediately\<close> and a truthy source, when the provider has created the
  order and rejects the payment: an invalid-request error is swallowed and \<open>create\<close>
  is the sync of the created, unpaid order; an error of any other class is raised.
  When moreover the customer is in the local store, external identifiers are unique
  there, and the created order names this customer, has an identifier and no charge,
  \<open>create\<close> does return a local Order holding the defaults of the created order.
\<close>

theorem create_suppresses_invalid_request_on_pay:
  assumes "truthy_source source"
    and "Order_create E (create_params E customer items currency shipping coupon metadata) = Inr so"
    and "Order_pay E so source = Inl (StripeError cls msg)"
  shows "(cls = InvalidRequestError \<longrightarrow>
            create E customer items currency source shipping coupon metadata True s
              = sync_order_from_stripe_data E so
                  (remote (Call_Order_pay so source)
                    (remote (Call_Order_create
                       (create_params E customer items currency shipping coupon metadata)) s)))
       \<and> (cls \<noteq> InvalidRequestError \<longrightarrow>
            create E customer items currency source shipping coupon metadata True s
              = (Inl (StripeError cls msg),
                 remote (Call_Order_pay so source)
                   (remote (Call_Order_create
                      (create_params E customer items currency shipping coupon metadata)) s)))
       \<and> (cls = InvalidRequestError \<and> customer \<in> set (customers s)
            \<and> distinct (map c_stripe_id (customers s))
            \<and> distinct (map stripe_id (rows (orders s)))
            \<and> so_customer so = Some (c_stripe_id customer) \<and> so_charge so = None
            \<and> so_id so = Some i \<longrightarrow>
            (\<exists>r s'. create E customer items currency source shipping coupon metadata True s
                       = (Inr r, s')
                \<and> stripe_id r = i
                \<and> vals r = order_defaults_of (ZERO_DECIMAL_CURRENCIES E) so NoCharge customer
                \<and> r \<in> set (rows (orders s'))))"
proof -
  let ?p = "create_params E customer items currency shipping coupon metadata"
  let ?s2 = "remote (Call_Order_pay so source) (remote (Call_Order_create ?p) s)"
  have p: "(if truthy_json metadata
        then (if truthy_str coupon
              then \<lparr>op_customer = c_stripe_id customer, op_currency = currency,
                    op_items = map (\<lambda>sku. case sku of SkuInstance k \<Rightarrow> convert_to_order_item E k
                                | OrderItem j \<Rightarrow> j) items, op_shipping = shipping,
                    op_coupon = None, op_metadata = None\<rparr>\<lparr>op_coupon := coupon\<rparr>
              else \<lparr>op_customer = c_stripe_id customer, op_currency = currency,
                    op_items = map (\<lambda>sku. case sku of SkuInstance k \<Rightarrow> convert_to_order_item E k
                                | OrderItem j \<Rightarrow> j) items, op_shipping = shipping,
                    op_coupon = None, op_metadata = None\<rparr>)\<lparr>op_metadata := Some metadata\<rparr>
        else (if truthy_str coupon
              then \<lparr>op_customer = c_stripe_id customer, op_currency = currency,
                    op_items = map (\<lambda>sku. case sku of SkuInstance k \<Rightarrow> convert_to_order_item E k
                                | OrderItem j \<Rightarrow> j) items, op_shipping = shipping,
                    op_coupon = None, op_metadata = None\<rparr>\<lparr>op_coupon := coupon\<rparr>
              else \<lparr>op_customer = c_stripe_id customer, op_currency = currency,
                    op_items = map (\<lambda>sku. case sku of SkuInstance k \<Rightarrow> convert_to_order_item E k
                                | OrderItem j \<Rightarrow> j) items, op_shipping = shipping,
                    op_coupon = None, op_metadata = None\<rparr>)) = ?p"
    by (simp add: create_params_def)
  have c: "create E customer items currency source shipping coupon metadata True s
      = (if cls = InvalidRequestError then sync_order_from_stripe_data E so ?s2
         else (Inl (StripeError cls msg), ?s2))"
    using assms
    by (simp add: create_def Let_def p pay_stripe_order_def is_InvalidRequestError_def)
  have s2: "customers ?s2 = customers s" "orders ?s2 = orders s"
    by (simp_all add: remote_def)
  from c sync_order_returns [of customer ?s2 so i E] s2 show ?thesis by auto
qed


theorem create_suppresses_invalid_request_on_pay_witness:
  "create ex_env ex_customer [] ''usd'' (Some (Token ''tok_bad'')) JNull None JNull True ex_state
     = sync_order_from_stripe_data ex_env ex_order
         (remote (Call_Order_pay ex_order (Some (Token ''tok_bad'')))
           (remote (Call_Order_create
              (create_params ex_env ex_customer [] ''usd'' JNull None JNull)) ex_state))
   \<and> map_sum id vals
        (fst (create ex_env ex_customer [] ''usd'' (Some (Token ''tok_bad'')) JNull None JNull
                True ex_state))
       = Inr (order_defaults_of [''jpy'', ''krw''] ex_order NoCharge ex_customer)
   \<and> create ex_env ex_customer [] ''usd'' (Some (Token ''tok_declined'')) JNull None JNull True
        ex_state
     = (Inl (StripeError CardError ''Your card was declined.''),
        remote (Call_Order_pay ex_order (Some (Token ''tok_declined'')))
          (remote (Call_Order_create
             (create_params ex_env ex_customer [] ''usd'' JNull None JNull)) ex_state))"
proof -
  have src1: "truthy_source (Some (Token ''tok_bad''))"
    and src2: "truthy_source (Some (Token ''tok_declined''))"
    by (simp_all add: truthy_source_def)
  have cr: "Order_create ex_env (create_params ex_env ex_customer [] ''usd'' JNull None JNull)
      = Inr ex_order"
    by (simp add: ex_env_def)
  have pay1: "Order_pay ex_env ex_order (Some (Token ''tok_bad''))
      = Inl (StripeError InvalidRequestError ''No such token: tok_bad'')"
    and pay2: "Order_pay ex_env ex_order (Some (Token ''tok_declined''))
      = Inl (StripeError CardError ''Your card was declined.'')"
    by (simp_all add: ex_env_def)
  have st: "ex_customer \<in> set (customers ex_state)"
    "distinct (map c_stripe_id (customers ex_state))"
    "distinct (map stripe_id (rows (orders ex_state)))"
    "so_customer ex_order = Some (c_stripe_id ex_customer)"
    "so_charge ex_order = None" "so_id ex_order = Some ''or_1''"
    by (simp_all add: ex_state_def ex_order_def ex_customer_def)
  note t1 = create_suppresses_invalid_request_on_pay [OF src1 cr pay1, of ex_state "''or_1''"]
  note t2 = create_suppresses_invalid_request_on_pay [OF src2 cr pay2, of ex_state "''or_1''"]
  from t1 have a: "create ex_env ex_customer [] ''usd'' (Some (Token ''tok_bad'')) JNull None
        JNull True ex_state
     = sync_order_from_stripe_data ex_env ex_order
         (remote (Call_Order_pay ex_order (Some (Token ''tok_bad'')))
           (remote (Call_Order_create
              (create_params ex_env ex_customer [] ''usd'' JNull None JNull)) ex_state))"
    by simp
  from t1 st obtain r s' where
    "create ex_env ex_customer [] ''usd'' (Some (Token ''tok_bad'')) JNull None JNull True ex_state
       = (Inr r, s')"
    and "vals r = order_defaults_of (ZERO_DECIMAL_CURRENCIES ex_env) ex_order NoCharge ex_customer"
    by blast
  then have b: "map_sum id vals
        (fst (create ex_env ex_customer [] ''usd'' (Some (Token ''tok_bad'')) JNull None JNull
                True ex_state))
       = Inr (order_defaults_of [''jpy'', ''krw''] ex_order NoCharge ex_customer)"
    by (simp add: ex_env_def)
  from t2 have c: "create ex_env ex_customer [] ''usd'' (Some (Token ''tok_declined'')) JNull
        None JNull True ex_state
     = (Inl (StripeError CardError ''Your card was declined.''),
        remote (Call_Order_pay ex_order (Some (Token ''tok_declined'')))
          (remote (Call_Order_create
             (create_params ex_env ex_customer [] ''usd'' JNull None JNull)) ex_state))"
    by simp
  from a b c show ?thesis by (intro conjI)
qed

section \<open>Running a sync routine twice\<close>

lemma fresh_pk_notin: "fresh_pk rs \<notin> pk ` set rs"
proof
  assume "fresh_pk rs \<in> pk ` set rs"
  then obtain x where x: "x \<in> set rs" and e: "pk x = fresh_pk rs" by auto
  from x have "pk x \<le> Max (insert 0 (set (map pk rs)))"
    by (intro Max_ge) auto
  with e show False by (simp add: fresh_pk_def)
qed

lemma replace_by_pk:
  assumes d: "distinct (map pk rs)" and a: "a \<in> set rs"
    and r: "pk r = pk a" "stripe_id r = stripe_id a"
  shows "map pk (map (\<lambda>x. if pk x = pk a then r else x) rs) = map pk rs"
    and "[x \<leftarrow> map (\<lambda>x. if pk x = pk a then r else x) rs. Some (stripe_id x) = Some (stripe_id a)]
           = map (\<lambda>x. if pk x = pk a then r else x)
               [x \<leftarrow> rs. Some (stripe_id x) = Some (stripe_id a)]"
    and "sid \<noteq> Some (stripe_id a) \<Longrightarrow>
         [x \<leftarrow> map (\<lambda>x. if pk x = pk a then r else x) rs. Some (stripe_id x) = sid]
           = [x \<leftarrow> rs. Some (stripe_id x) = sid]"
proof -
  let ?g = "\<lambda>x. if pk x = pk a then r else x"
  from d have inj: "inj_on pk (set rs)" by (simp add: distinct_map)
  have same: "\<And>x. x \<in> set rs \<Longrightarrow> pk x = pk a \<Longrightarrow> x = a"
    using inj a by (auto dest: inj_onD)
  have sid_g: "\<And>x. x \<in> set rs \<Longrightarrow> stripe_id (?g x) = stripe_id x"
    using same r by auto
  show "map pk (map ?g rs) = map pk rs"
    using r by (simp add: comp_def)
  have fm: "\<And>s. [x \<leftarrow> map ?g rs. Some (stripe_id x) = s]
      = map ?g [x \<leftarrow> rs. Some (stripe_id x) = s]"
  proof -
    fix s
    have "[x \<leftarrow> map ?g rs. Some (stripe_id x) = s]
        = map ?g [x \<leftarrow> rs. Some (stripe_id (?g x)) = s]"
      by (simp add: filter_map comp_def)
    also have "[x \<leftarrow> rs. Some (stripe_id (?g x)) = s] = [x \<leftarrow> rs. Some (stripe_id x) = s]"
      by (rule filter_cong) (use sid_g in auto)
    finally show "[x \<leftarrow> map ?g rs. Some (stripe_id x) = s]
      = map ?g [x \<leftarrow> rs. Some (stripe_id x) = s]" .
  qed
  show "[x \<leftarrow> map ?g rs. Some (stripe_id x) = Some (stripe_id a)]
           = map ?g [x \<leftarrow> rs. Some (stripe_id x) = Some (stripe_id a)]"
    by (rule fm)
  assume ne: "sid \<noteq> Some (stripe_id a)"
  have "map ?g [x \<leftarrow> rs. Some (stripe_id x) = sid] = [x \<leftarrow> rs. Some (stripe_id x) = sid]"
    by (rule map_idI) (use ne same in auto)
  with fm [of sid] show "[x \<leftarrow> map ?g rs. Some (stripe_id x) = sid]
           = [x \<leftarrow> rs. Some (stripe_id x) = sid]" by simp
qed

lemma upsert_table:
  assumes g: "get_or_create sid v t = (Inr (obj, created), t1)"
    and u: "update_with_defaults obj v created t1 = (r, t2)"
    and d: "distinct (map pk (rows t))"
  shows "distinct (map pk (rows t2))"
    and "[x \<leftarrow> rows t2. Some (stripe_id x) = sid] = [r]"
    and "vals r = v"
    and "sid' \<noteq> sid \<Longrightarrow>
         [x \<leftarrow> rows t2. Some (stripe_id x) = sid'] = [x \<leftarrow> rows t. Some (stripe_id x) = sid']"
proof -
  have all: "distinct (map pk (rows t2)) \<and> [x \<leftarrow> rows t2. Some (stripe_id x) = sid] = [r]
      \<and> vals r = v
      \<and> (sid' \<noteq> sid \<longrightarrow>
         [x \<leftarrow> rows t2. Some (stripe_id x) = sid'] = [x \<leftarrow> rows t. Some (stripe_id x) = sid'])"
  proof (cases "[x \<leftarrow> rows t. Some (stripe_id x) = sid]")
    case Nil
    with g obtain i where i: "sid = Some i"
      and obj: "obj = \<lparr>pk = fresh_pk (rows t), stripe_id = i, vals = v\<rparr>"
      and c: "created" and t1: "rows t1 = rows t @ [obj]"
      by (auto simp: get_or_create_def Let_def split: option.splits)
    from u c have r: "r = obj" and t2: "t2 = t1" by (simp_all add: update_with_defaults_def)
    from fresh_pk_notin [of "rows t"] obj have "pk obj \<notin> pk ` set (rows t)" by simp
    with d t1 t2 have "distinct (map pk (rows t2))" by simp
    moreover from Nil i obj t1 t2 r have "[x \<leftarrow> rows t2. Some (stripe_id x) = sid] = [r]"
      by simp
    moreover from r obj have "vals r = v" by simp
    moreover from i obj t1 t2 have "sid' \<noteq> sid \<longrightarrow>
         [x \<leftarrow> rows t2. Some (stripe_id x) = sid'] = [x \<leftarrow> rows t. Some (stripe_id x) = sid']"
      by auto
    ultimately show ?thesis by blast
  next
    case (Cons a as)
    with g have as: "as = []" and obj: "obj = a" and c: "\<not> created" and t1: "t1 = t"
      by (auto simp: get_or_create_def split: list.splits)
    from Cons as have fa: "[x \<leftarrow> rows t. Some (stripe_id x) = sid] = [a]" by simp
    from filter_singleton_mem [OF fa]
    have mem: "a \<in> set (rows t)" and sa: "sid = Some (stripe_id a)" by auto
    show ?thesis
    proof (cases "vals a = v")
      case True
      with u obj c t1 have "r = a" "t2 = t" by (simp_all add: update_with_defaults_def)
      with d fa True show ?thesis by simp
    next
      case False
      with u obj c t1 have r: "r = a\<lparr>vals := v\<rparr>"
        and t2: "rows t2 = map (\<lambda>x. if pk x = pk a then r else x) (rows t)"
        by (auto simp: update_with_defaults_def Let_def)
      from r have rr: "pk r = pk a" "stripe_id r = stripe_id a" by simp_all
      note rp = replace_by_pk [OF d mem rr]
      have "distinct (map pk (rows t2))" unfolding t2 rp(1) by (rule d)
      moreover have "[x \<leftarrow> rows t2. Some (stripe_id x) = sid] = [r]"
        unfolding t2 sa rp(2) using fa sa by simp
      moreover from r have "vals r = v" by simp
      moreover have "sid' \<noteq> sid \<longrightarrow>
         [x \<leftarrow> rows t2. Some (stripe_id x) = sid'] = [x \<leftarrow> rows t. Some (stripe_id x) = sid']"
        unfolding t2 using rp(3) [of sid'] sa by blast
      ultimately show ?thesis by blast
    qed
  qed
  from all show "distinct (map pk (rows t2))"
    and "[x \<leftarrow> rows t2. Some (stripe_id x) = sid] = [r]" and "vals r = v" by simp_all
  assume "sid' \<noteq> sid"
  with all show "[x \<leftarrow> rows t2. Some (stripe_id x) = sid']
      = [x \<leftarrow> rows t. Some (stripe_id x) = sid']" by simp
qed

lemma upsert_noop:
  assumes "[x \<leftarrow> rows t. Some (stripe_id x) = sid] = [r]" and "vals r = v"
  shows "get_or_create sid v t = (Inr (r, False), t)"
    and "update_with_defaults r v False t = (r, t)"
  using assms by (simp_all add: get_or_create_def update_with_defaults_def)


lemma sync_order_charge_frame:
  "sync_order_charge E c s = (x, s') \<Longrightarrow>
   orders s' = orders s \<and> customers s' = customers s \<and> plans s' = plans s"
  by (auto simp: sync_order_charge_def remote_def split: option.splits if_splits sum.splits
      prod.splits)

lemma sync_order_charge_again:
  assumes stab: "\<forall>ch cs c cs'. sync_charge_from_stripe_data E ch cs = (Inr c, cs')
                   \<longrightarrow> fst (sync_charge_from_stripe_data E ch cs') = Inr c"
    and first: "sync_order_charge E charge s = (Inr cf, s1)"
    and same: "charge_tables s1' = charge_tables s1"
  shows "fst (sync_order_charge E charge s1') = Inr cf"
proof (cases "truthy_str charge")
  case False
  with first show ?thesis
    by (auto simp: sync_order_charge_def truthy_str_def split: option.splits if_splits)
next
  case True
  then obtain cid where cid: "charge = Some cid" "cid \<noteq> []"
    by (auto simp: truthy_str_def split: option.splits)
  with first obtain ch where ch: "Charge_retrieve E cid = Inr ch"
    by (auto simp: sync_order_charge_def split: sum.splits)
  with first cid obtain c cs where
    c: "sync_charge_from_stripe_data E ch (charge_tables s) = (Inr c, cs)"
    and cf: "cf = LocalCharge c" and s1: "charge_tables s1 = cs"
    by (auto simp: sync_order_charge_def remote_def split: sum.splits prod.splits)
  from stab c have "fst (sync_charge_from_stripe_data E ch cs) = Inr c" by blast
  with cid ch cf s1 same show ?thesis
    by (auto simp: sync_order_charge_def split: sum.splits prod.splits)
qed

lemma sync_order_again:
  assumes stab: "\<forall>ch cs c cs'. sync_charge_from_stripe_data E ch cs = (Inr c, cs')
                   \<longrightarrow> fst (sync_charge_from_stripe_data E ch cs') = Inr c"
    and d: "distinct (map pk (rows (orders s)))"
    and first: "sync_order_from_stripe_data E so s = (Inr r, s1)"
  shows "fst (sync_order_from_stripe_data E so s1) = Inr r
       \<and> orders (snd (sync_order_from_stripe_data E so s1)) = orders s1
       \<and> customers (snd (sync_order_from_stripe_data E so s1)) = customers s1
       \<and> plans (snd (sync_order_from_stripe_data E so s1)) = plans s1
       \<and> [x \<leftarrow> rows (orders s1). Some (stripe_id x) = so_id so] = [r]"
proof -
  from first obtain c where c: "Customer_get (so_customer so) (customers s) = Inr c"
    by (auto simp: sync_order_from_stripe_data_def split: sum.splits)
  from first c obtain ch sa where ch: "sync_order_charge E (so_charge so) s = (Inr ch, sa)"
    by (auto simp: sync_order_from_stripe_data_def split: sum.splits prod.splits)
  define dv where "dv = order_defaults_of (ZERO_DECIMAL_CURRENCIES E) so ch c"
  from first c ch obtain obj created t where
    g: "get_or_create (so_id so) dv (orders sa) = (Inr (obj, created), t)"
    by (auto simp: sync_order_from_stripe_data_def dv_def Let_def split: sum.splits prod.splits)
  from first c ch g obtain t' where
    u: "update_with_defaults obj dv created t = (r, t')" and s1: "s1 = sa\<lparr>orders := t'\<rparr>"
    by (auto simp: sync_order_from_stripe_data_def dv_def Let_def split: sum.splits prod.splits)
  note fr = sync_order_charge_frame [OF ch]
  from d fr have da: "distinct (map pk (rows (orders sa)))" by simp
  note ut = upsert_table [OF g u da]
  from s1 fr have c1: "customers s1 = customers s" and ct: "charge_tables s1 = charge_tables sa"
    and o1: "orders s1 = t'"
    by simp_all
  obtain x sb where sb: "sync_order_charge E (so_charge so) s1 = (x, sb)"
    by (cases "sync_order_charge E (so_charge so) s1") blast
  from sync_order_charge_again [OF stab ch ct] sb have x: "x = Inr ch" by simp
  note frb = sync_order_charge_frame [OF sb]
  from frb o1 have ob: "orders sb = t'" by simp
  from ut(2) ob have fb: "[x \<leftarrow> rows (orders sb). Some (stripe_id x) = so_id so] = [r]"
    by simp
  note g2 = upsert_noop(1) [OF fb ut(3)] and u2 = upsert_noop(2) [OF fb ut(3)]
  have second: "sync_order_from_stripe_data E so s1 = (Inr r, sb)"
    using c c1 sb x g2 u2
    by (simp add: sync_order_from_stripe_data_def dv_def [symmetric] Let_def)
  from second frb o1 ut(2) show ?thesis by simp
qed

lemma sync_plans_loop_first:
  "sync_plans_loop E ps s = (Inr (), s1) \<Longrightarrow> distinct (map pk (rows (plans s))) \<Longrightarrow>
   distinct (map sp_id ps) \<Longrightarrow>
   distinct (map pk (rows (plans s1)))
   \<and> (\<forall>p \<in> set ps. \<exists>r. [x \<leftarrow> rows (plans s1). Some (stripe_id x) = sp_id p] = [r]
          \<and> vals r = plan_defaults_of (ZERO_DECIMAL_CURRENCIES E) p)
   \<and> (\<forall>sid. sid \<notin> sp_id ` set ps \<longrightarrow>
          [x \<leftarrow> rows (plans s1). Some (stripe_id x) = sid]
            = [x \<leftarrow> rows (plans s). Some (stripe_id x) = sid])"
proof (induction ps arbitrary: s)
  case Nil
  then show ?case by simp
next
  case (Cons p ps)
  define dv where "dv = plan_defaults_of (ZERO_DECIMAL_CURRENCIES E) p"
  from Cons.prems(1) obtain obj created t where
    g: "get_or_create (sp_id p) dv (plans s) = (Inr (obj, created), t)"
    by (auto simp: dv_def Let_def split: sum.splits prod.splits)
  obtain r t' where u: "update_with_defaults obj dv created t = (r, t')"
    by (cases "update_with_defaults obj dv created t") blast
  from Cons.prems(1) g u have rest: "sync_plans_loop E ps (s\<lparr>plans := t'\<rparr>) = (Inr (), s1)"
    by (simp add: dv_def [symmetric] Let_def)
  note ut = upsert_table [OF g u Cons.prems(2)]
  from ut(1) have d': "distinct (map pk (rows (plans (s\<lparr>plans := t'\<rparr>))))" by simp
  from Cons.prems(3) have dps: "distinct (map sp_id ps)" and notin: "sp_id p \<notin> sp_id ` set ps"
    by simp_all
  note ih = Cons.IH [OF rest d' dps]
  from ih have keep: "\<And>sid. sid \<notin> sp_id ` set ps \<Longrightarrow>
      [x \<leftarrow> rows (plans s1). Some (stripe_id x) = sid] = [x \<leftarrow> rows t'. Some (stripe_id x) = sid]"
    by simp
  have head: "\<exists>r. [x \<leftarrow> rows (plans s1). Some (stripe_id x) = sp_id p] = [r]
      \<and> vals r = plan_defaults_of (ZERO_DECIMAL_CURRENCIES E) p"
    using keep [OF notin] ut(2) ut(3) by (simp add: dv_def)
  have other: "\<forall>sid. sid \<notin> sp_id ` set (p # ps) \<longrightarrow>
          [x \<leftarrow> rows (plans s1). Some (stripe_id x) = sid]
            = [x \<leftarrow> rows (plans s). Some (stripe_id x) = sid]"
  proof (intro allI impI)
    fix sid assume n: "sid \<notin> sp_id ` set (p # ps)"
    then have "sid \<notin> sp_id ` set ps" and "sid \<noteq> sp_id p" by auto
    with keep [of sid] ut(4) [of sid]
    show "[x \<leftarrow> rows (plans s1). Some (stripe_id x) = sid]
            = [x \<leftarrow> rows (plans s). Some (stripe_id x) = sid]" by simp
  qed
  from ih head other show ?case by simp
qed

lemma sync_plans_loop_frame:
  "sync_plans_loop E ps s = (x, s1) \<Longrightarrow>
   orders s1 = orders s \<and> customers s1 = customers s \<and> calls s1 = calls s"
proof (induction ps arbitrary: s)
  case Nil
  then show ?case by simp
next
  case (Cons p ps)
  then show ?case
    by (fastforce simp: Let_def split: sum.splits prod.splits)
qed

lemma sync_plans_loop_noop:
  "\<forall>p \<in> set ps. \<exists>r. [x \<leftarrow> rows (plans s). Some (stripe_id x) = sp_id p] = [r]
          \<and> vals r = plan_defaults_of (ZERO_DECIMAL_CURRENCIES E) p \<Longrightarrow>
   sync_plans_loop E ps s = (Inr (), s)"
proof (induction ps)
  case Nil
  then show ?case by simp
next
  case (Cons p ps)
  then obtain r where r: "[x \<leftarrow> rows (plans s). Some (stripe_id x) = sp_id p] = [r]"
    "vals r = plan_defaults_of (ZERO_DECIMAL_CURRENCIES E) p" by auto
  from upsert_noop [OF r] Cons show ?case by (simp add: Let_def)
qed


text \<open>
  C6. Sync is idempotent. Order sync: when primary keys are unique in the orders table,
  the charge sync routine gives the same local Charge when it is run again, and a first
  run on a payload returned the record \<open>r\<close>, then a second run on the same payload
  returns \<open>r\<close> again and leaves the orders table as the first run left it (same rows,
  same number of saves), with exactly the one row \<open>r\<close> for the payload's identifier.
  Plan sync: when primary keys are unique in the plans table and the listing holds each
  plan identifier once, a second \<open>sync_plans\<close> after a successful first one succeeds and
  leaves the plans table as it was (same rows, same number of saves), with exactly one
  row, holding the plan's defaults, for each plan of the listing.
\<close>

theorem sync_twice_idempotent:
  "((\<forall>ch cs c cs'. sync_charge_from_stripe_data E ch cs = (Inr c, cs')
        \<longrightarrow> fst (sync_charge_from_stripe_data E ch cs') = Inr c)
      \<and> distinct (map pk (rows (orders s)))
      \<and> sync_order_from_stripe_data E so s = (Inr r, s1)
    \<longrightarrow> fst (sync_order_from_stripe_data E so s1) = Inr r
      \<and> orders (snd (sync_order_from_stripe_data E so s1)) = orders s1
      \<and> saves (orders (snd (sync_order_from_stripe_data E so s1))) = saves (orders s1)
      \<and> customers (snd (sync_order_from_stripe_data E so s1)) = customers s1
      \<and> plans (snd (sync_order_from_stripe_data E so s1)) = plans s1
      \<and> [x \<leftarrow> rows (orders s1). Some (stripe_id x) = so_id so] = [r])
   \<and> (distinct (map pk (rows (plans s)))
      \<and> Plan_all E = Inr data \<and> distinct (map sp_id data)
      \<and> sync_plans E s = (Inr (), p1)
    \<longrightarrow> fst (sync_plans E p1) = Inr ()
      \<and> plans (snd (sync_plans E p1)) = plans p1
      \<and> saves (plans (snd (sync_plans E p1))) = saves (plans p1)
      \<and> orders (snd (sync_plans E p1)) = orders p1
      \<and> customers (snd (sync_plans E p1)) = customers p1
      \<and> (\<forall>p \<in> set data. \<exists>row. [x \<leftarrow> rows (plans p1). Some (stripe_id x) = sp_id p] = [row]
            \<and> vals row = plan_defaults_of (ZERO_DECIMAL_CURRENCIES E) p))"
proof (intro conjI impI)
  assume a: "(\<forall>ch cs c cs'. sync_charge_from_stripe_data E ch cs = (Inr c, cs')
        \<longrightarrow> fst (sync_charge_from_stripe_data E ch cs') = Inr c)
      \<and> distinct (map pk (rows (orders s)))
      \<and> sync_order_from_stripe_data E so s = (Inr r, s1)"
  then have stab: "\<forall>ch cs c cs'. sync_charge_from_stripe_data E ch cs = (Inr c, cs')
        \<longrightarrow> fst (sync_charge_from_stripe_data E ch cs') = Inr c"
    and d: "distinct (map pk (rows (orders s)))"
    and first: "sync_order_from_stripe_data E so s = (Inr r, s1)" by blast+
  note again = sync_order_again [OF stab d first]
  from again show "fst (sync_order_from_stripe_data E so s1) = Inr r" by simp
  from again show "orders (snd (sync_order_from_stripe_data E so s1)) = orders s1" by simp
  from again show "saves (orders (snd (sync_order_from_stripe_data E so s1))) = saves (orders s1)"
    by simp
  from again show "customers (snd (sync_order_from_stripe_data E so s1)) = customers s1" by simp
  from again show "plans (snd (sync_order_from_stripe_data E so s1)) = plans s1" by simp
  from again show "[x \<leftarrow> rows (orders s1). Some (stripe_id x) = so_id so] = [r]" by simp
next
  assume a: "distinct (map pk (rows (plans s)))
      \<and> Plan_all E = Inr data \<and> distinct (map sp_id data)
      \<and> sync_plans E s = (Inr (), p1)"
  then have d: "distinct (map pk (rows (plans s)))" and pa: "Plan_all E = Inr data"
    and dd: "distinct (map sp_id data)" and first: "sync_plans E s = (Inr (), p1)" by blast+
  from first pa have l1: "sync_plans_loop E data (remote Call_Plan_all s) = (Inr (), p1)"
    by (simp add: sync_plans_def)
  from d have d': "distinct (map pk (rows (plans (remote Call_Plan_all s))))"
    by (simp add: remote_def)
  note f = sync_plans_loop_first [OF l1 d' dd]
  from f have synced: "\<forall>p \<in> set data.
      \<exists>row. [x \<leftarrow> rows (plans p1). Some (stripe_id x) = sp_id p] = [row]
        \<and> vals row = plan_defaults_of (ZERO_DECIMAL_CURRENCIES E) p" by blast
  then have "\<forall>p \<in> set data.
      \<exists>row. [x \<leftarrow> rows (plans (remote Call_Plan_all p1)). Some (stripe_id x) = sp_id p] = [row]
        \<and> vals row = plan_defaults_of (ZERO_DECIMAL_CURRENCIES E) p"
    by (simp add: remote_def)
  from sync_plans_loop_noop [OF this] pa
  have second: "sync_plans E p1 = (Inr (), remote Call_Plan_all p1)"
    by (simp add: sync_plans_def)
  from second show "fst (sync_plans E p1) = Inr ()" by simp
  from second show "plans (snd (sync_plans E p1)) = plans p1" by (simp add: remote_def)
  from second show "saves (plans (snd (sync_plans E p1))) = saves (plans p1)"
    by (simp add: remote_def)
  from second show "orders (snd (sync_plans E p1)) = orders p1" by (simp add: remote_def)
  from second show "customers (snd (sync_plans E p1)) = customers p1" by (simp add: remote_def)
  from synced show "\<forall>p \<in> set data.
      \<exists>row. [x \<leftarrow> rows (plans p1). Some (stripe_id x) = sp_id p] = [row]
        \<and> vals row = plan_defaults_of (ZERO_DECIMAL_CURRENCIES E) p" .
qed

lemma ex_sync_paid:
  "sync_order_from_stripe_data ex_env ex_order_paid ex_state
     = (Inr ex_local_order,
        ex_state\<lparr>orders := \<lparr>rows = [ex_local_order], saves = 1\<rparr>,
                 calls := [Call_Charge_retrieve ''ch_1'']\<rparr>)"
  by (simp add: model_defs fixture_defs)

lemma ex_sync_plans:
  "sync_plans ex_env ex_state
     = (Inr (),
        ex_state\<lparr>plans := \<lparr>rows =
            [\<lparr>pk = 1, stripe_id = ''pro'', vals = plan_defaults_of [''jpy'', ''krw''] ex_plan\<rparr>,
             \<lparr>pk = 2, stripe_id = ''yen'', vals = plan_defaults_of [''jpy'', ''krw''] ex_plan_yen\<rparr>],
            saves = 2\<rparr>,
          calls := [Call_Plan_all]\<rparr>)"
  by (simp add: sync_plans_def plan_defaults_of_def or_empty_def model_defs fixture_defs)

theorem sync_twice_idempotent_witness:
  "fst (sync_order_from_stripe_data ex_env ex_order_paid
          (snd (sync_order_from_stripe_data ex_env ex_order_paid ex_state))) = Inr ex_local_order
   \<and> orders (snd (sync_order_from_stripe_data ex_env ex_order_paid
          (snd (sync_order_from_stripe_data ex_env ex_order_paid ex_state))))
       = \<lparr>rows = [ex_local_order], saves = 1\<rparr>
   \<and> fst (sync_plans ex_env (snd (sync_plans ex_env ex_state))) = Inr ()
   \<and> saves (plans (snd (sync_plans ex_env (snd (sync_plans ex_env ex_state))))) = 2
   \<and> map stripe_id (rows (plans (snd (sync_plans ex_env (snd (sync_plans ex_env ex_state))))))
       = [''pro'', ''yen'']"
proof -
  let ?s1 = "ex_state\<lparr>orders := \<lparr>rows = [ex_local_order], saves = 1\<rparr>,
                 calls := [Call_Charge_retrieve ''ch_1'']\<rparr>"
  let ?p1 = "ex_state\<lparr>plans := \<lparr>rows =
            [\<lparr>pk = 1, stripe_id = ''pro'', vals = plan_defaults_of [''jpy'', ''krw''] ex_plan\<rparr>,
             \<lparr>pk = 2, stripe_id = ''yen'', vals = plan_defaults_of [''jpy'', ''krw''] ex_plan_yen\<rparr>],
            saves = 2\<rparr>,
          calls := [Call_Plan_all]\<rparr>"
  have stab: "\<forall>ch cs c cs'. sync_charge_from_stripe_data ex_env ch cs = (Inr c, cs')
        \<longrightarrow> fst (sync_charge_from_stripe_data ex_env ch cs') = Inr c"
    by (simp add: ex_env_def)
  have d: "distinct (map pk (rows (orders ex_state)))" "distinct (map pk (rows (plans ex_state)))"
    by (simp_all add: ex_state_def)
  have pa: "Plan_all ex_env = Inr [ex_plan, ex_plan_yen]" by (simp add: ex_env_def)
  have dd: "distinct (map sp_id [ex_plan, ex_plan_yen])"
    by (simp add: ex_plan_def ex_plan_yen_def)
  note t = sync_twice_idempotent [of ex_env ex_state ex_order_paid ex_local_order ?s1
      "[ex_plan, ex_plan_yen]" ?p1]
  from t stab d(1) ex_sync_paid
  have o: "fst (sync_order_from_stripe_data ex_env ex_order_paid ?s1) = Inr ex_local_order"
    "orders (snd (sync_order_from_stripe_data ex_env ex_order_paid ?s1)) = orders ?s1"
    by blast+
  from t d(2) pa dd ex_sync_plans
  have p: "fst (sync_plans ex_env ?p1) = Inr ()"
    "plans (snd (sync_plans ex_env ?p1)) = plans ?p1"
    by blast+
  from o p show ?thesis by (simp add: ex_sync_paid ex_sync_plans)
qed

end
